theory Spec2Isabelle
  imports Complex_Main "HOL-Library.AList"
begin

section \<open>Data types, schemas and errors\<close>

text \<open>
  \<open>DType\<close> is imported by every source file from \<open>temporian.core.data.dtype\<close>, which
  is not among the sources. Its members are the six the sources and the specification name.
\<close>

datatype DType = BOOLEAN | INT32 | INT64 | FLOAT32 | FLOAT64 | STRING

text \<open>
  Every failure of the sources is a Python exception. A \<open>ValueError\<close> carries the message
  of the \<open>raise\<close> statement it comes from. Three failures come from methods of the base
  classes that the sources call but do not contain; they are named after the error taxonomy
  of the specification.
\<close>

datatype message =
    At_least_two_arguments_should_be_provided
  | Too_many_arguments_provided
  | Input_should_have_only_1_boolean_feature
  | Argument_should_have_only_1_feature string
  | Arguments_should_have_the_same_dtype DType DType
  | Overflow_casting DType DType

datatype error =
    ValueError message
  | TypeError
  | KeyError
  | IndexError
  | AssertionError
  | SchemaMismatchError
  | SamplingMismatchError
  | MalformedOperatorError

record Schema =
  features :: "(string \<times> DType) list"
  indexes :: "(string \<times> DType) list"
  is_unix_timestamp :: bool

definition feature_dtypes :: "Schema \<Rightarrow> DType list" where
  "feature_dtypes s = map snd (features s)"

definition feature_names :: "Schema \<Rightarrow> string list" where
  "feature_names s = map fst (features s)"

text \<open>
  Modelled from the spec: \<open>Schema.check_compatible_features\<close> is not among the sources.
  It fails with a schema mismatch unless both schemas have the same feature names and dtypes;
  when \<open>check_order\<close> is true the order must match as well.
\<close>

definition check_compatible_features :: "Schema \<Rightarrow> Schema \<Rightarrow> bool \<Rightarrow> error + unit" where
  "check_compatible_features self other check_order =
     (if check_order then
        (if features self = features other then Inr () else Inl SchemaMismatchError)
      else
        (if set (features self) = set (features other) then Inr ()
         else Inl SchemaMismatchError))"

text \<open>
  A node is a symbolic handle. Object identity is written out: \<open>sampling_node\<close> is the
  identity of the sampling the node refers to, \<open>creator\<close> the identity of the operator
  that made the node (\<open>None\<close> for a graph input).
\<close>

record EventSetNode =
  schema :: Schema
  sampling_node :: nat
  creator :: "nat option"

text \<open>
  Modelled from the spec: \<open>EventSetNode.check_same_sampling\<close> is not among the sources.
  Two nodes have the same sampling only if their sampling references are identical.
\<close>

definition check_same_sampling :: "EventSetNode \<Rightarrow> EventSetNode \<Rightarrow> error + unit" where
  "check_same_sampling self other =
     (if sampling_node self = sampling_node other then Inr () else Inl SamplingMismatchError)"

text \<open>
  Modelled from the spec: the two node constructors of \<open>temporian.core.data.node\<close> are
  not among the sources. The first makes a node with the given features, indexes and unix
  flag on a sampling of its own; the second makes a node with the given features on the
  sampling, the indexes and the unix flag of \<open>sampling_node\<close>.
\<close>

definition create_node_new_features_new_sampling ::
  "(string \<times> DType) list \<Rightarrow> (string \<times> DType) list \<Rightarrow> bool \<Rightarrow> nat \<Rightarrow> nat \<Rightarrow> EventSetNode" where
  "create_node_new_features_new_sampling fs idxs is_unix new_sampling creator_id =
     \<lparr>schema = \<lparr>features = fs, indexes = idxs, is_unix_timestamp = is_unix\<rparr>,
      sampling_node = new_sampling,
      creator = Some creator_id\<rparr>"

definition create_node_new_features_existing_sampling ::
  "(string \<times> DType) list \<Rightarrow> EventSetNode \<Rightarrow> nat \<Rightarrow> EventSetNode" where
  "create_node_new_features_existing_sampling fs sampling_nd creator_id =
     \<lparr>schema = \<lparr>features = fs, indexes = indexes (schema sampling_nd),
                is_unix_timestamp = is_unix_timestamp (schema sampling_nd)\<rparr>,
      sampling_node = sampling_node sampling_nd,
      creator = Some creator_id\<rparr>"

section \<open>Operators\<close>

text \<open>
  An operator holds its inputs, outputs and attributes, each a Python dict in insertion
  order. \<open>on_attributes\<close> is the \<open>_on_attributes\<close> dict of \<open>Where\<close>; \<open>Combine\<close> leaves
  it empty. \<open>'v\<close> is the type of scalar attribute values.
\<close>

record 'v Operator =
  inputs :: "(string \<times> EventSetNode) list"
  outputs :: "(string \<times> EventSetNode) list"
  attributes :: "(string \<times> 'v) list"
  on_attributes :: "(string \<times> 'v) list"

definition new_operator :: "'v Operator" where
  "new_operator = \<lparr>inputs = [], outputs = [], attributes = [], on_attributes = []\<rparr>"

definition add_input :: "string \<Rightarrow> EventSetNode \<Rightarrow> 'v Operator \<Rightarrow> 'v Operator" where
  "add_input key node op = op\<lparr>inputs := AList.update key node (inputs op)\<rparr>"

definition add_output :: "string \<Rightarrow> EventSetNode \<Rightarrow> 'v Operator \<Rightarrow> 'v Operator" where
  "add_output key node op = op\<lparr>outputs := AList.update key node (outputs op)\<rparr>"

definition add_attribute :: "string \<Rightarrow> 'v \<Rightarrow> 'v Operator \<Rightarrow> 'v Operator" where
  "add_attribute key v op = op\<lparr>attributes := AList.update key v (attributes op)\<rparr>"

text \<open>
  An operator definition lists the declared slots; a slot is a key with its
  \<open>is_optional\<close> flag. Outputs are never optional.
\<close>

record OperatorDef =
  def_key :: string
  def_inputs :: "(string \<times> bool) list"
  def_outputs :: "string list"
  def_attributes :: "(string \<times> bool) list"

text \<open>
  Modelled from the spec: \<open>Operator.check\<close> is not among the sources. The populated slots
  must match the declared ones: every slot that is not optional is populated and no
  populated slot is undeclared.
\<close>

definition slots_ok :: "(string \<times> bool) list \<Rightarrow> string list \<Rightarrow> bool" where
  "slots_ok declared populated =
     (list_all (\<lambda>(k, optional). optional \<or> k \<in> set populated) declared
      \<and> list_all (\<lambda>k. k \<in> fst ` set declared) populated)"

definition check :: "OperatorDef \<Rightarrow> 'v Operator \<Rightarrow> error + unit" where
  "check d op =
     (if slots_ok (def_inputs d) (map fst (inputs op))
         \<and> slots_ok (map (\<lambda>k. (k, False)) (def_outputs d)) (map fst (outputs op))
         \<and> slots_ok (def_attributes d) (map fst (attributes op))
      then Inr () else Inl MalformedOperatorError)"

subsection \<open>The \<open>Where\<close> operator (\<open>core/operators/where.py\<close>)\<close>

text \<open>
  An argument of \<open>Where\<close> is a node or a single value. The dtype of a single value is
  found by \<open>DType.infer_from_value\<close>, which is not among the sources and which the
  specification does not describe: it is the parameter \<open>infer\<close>.
\<close>

datatype 'v argument = Node EventSetNode | Value 'v

definition Where_op_definition :: OperatorDef where
  "Where_op_definition =
     \<lparr>def_key = ''WHERE'',
      def_inputs = [(''input'', False), (''on_true'', True), (''on_false'', True)],
      def_outputs = [''output''],
      def_attributes = [(''on_true'', True), (''on_false'', True)]\<rparr>"

definition add_argument ::
  "('v \<Rightarrow> error + DType) \<Rightarrow> 'v Operator \<Rightarrow> 'v argument \<Rightarrow> string \<Rightarrow> EventSetNode
     \<Rightarrow> error + (DType \<times> 'v Operator)" where
  "add_argument infer self arg_value arg_name input =
     (case arg_value of
        Node nd \<Rightarrow>
          (case check_same_sampling input nd of
             Inl e \<Rightarrow> Inl e
           | Inr _ \<Rightarrow>
               (let dtypes = feature_dtypes (schema nd) in
                if length dtypes \<noteq> 1 then Inl (ValueError (Argument_should_have_only_1_feature arg_name))
                else Inr (dtypes ! 0, add_input arg_name nd self)))
      | Value v \<Rightarrow>
          (case infer v of
             Inl e \<Rightarrow> Inl e
           | Inr dtype \<Rightarrow>
               Inr (dtype,
                    add_attribute arg_name v
                      (self\<lparr>on_attributes := AList.update arg_name v (on_attributes self)\<rparr>))))"

definition output_feature_name :: "'v Operator \<Rightarrow> error + string" where
  "output_feature_name self =
     (case map_of (inputs self) ''input'' of
        None \<Rightarrow> Inl KeyError
      | Some nd \<Rightarrow>
          (case feature_names (schema nd) of
             [] \<Rightarrow> Inl IndexError
           | nm # _ \<Rightarrow> Inr nm))"

text \<open>\<open>self_id\<close> is the identity of the operator object under construction.\<close>

definition Where_init ::
  "('v \<Rightarrow> error + DType) \<Rightarrow> nat \<Rightarrow> EventSetNode \<Rightarrow> 'v argument \<Rightarrow> 'v argument
     \<Rightarrow> error + 'v Operator" where
  "Where_init infer self_id input on_true on_false =
     (let dtypes = feature_dtypes (schema input) in
      if length dtypes \<noteq> 1 \<or> dtypes ! 0 \<noteq> BOOLEAN
      then Inl (ValueError Input_should_have_only_1_boolean_feature)
      else
        (let op1 = add_input ''input'' input new_operator in
         case add_argument infer op1 on_true ''on_true'' input of
           Inl e \<Rightarrow> Inl e
         | Inr (true_dtype, op2) \<Rightarrow>
             (case add_argument infer op2 on_false ''on_false'' input of
                Inl e \<Rightarrow> Inl e
              | Inr (false_dtype, op3) \<Rightarrow>
                  if true_dtype \<noteq> false_dtype
                  then Inl (ValueError (Arguments_should_have_the_same_dtype true_dtype false_dtype))
                  else
                    (case output_feature_name op3 of
                       Inl e \<Rightarrow> Inl e
                     | Inr nm \<Rightarrow>
                         (let op4 = add_output ''output''
                                      (create_node_new_features_existing_sampling
                                         [(nm, true_dtype)] input self_id) op3 in
                          case check Where_op_definition op4 of
                            Inl e \<Rightarrow> Inl e
                          | Inr _ \<Rightarrow> Inr op4)))))"

subsection \<open>The \<open>Combine\<close> operator (\<open>core/operators/combine.py\<close>)\<close>

definition MAX_NUM_ARGUMENTS :: nat where
  "MAX_NUM_ARGUMENTS = 30"

text \<open>The decimal digits of a number, as the f-string \<open>f"input_{idx}"\<close> prints them.\<close>

definition digit_char :: "nat \<Rightarrow> char" where
  "digit_char n = ''0123456789'' ! n"

function str_nat :: "nat \<Rightarrow> string" where
  "str_nat n = (if n < 10 then [digit_char n] else str_nat (n div 10) @ [digit_char (n mod 10)])"
  by pat_completeness auto
termination
  by (relation "measure id") auto

declare str_nat.simps [simp del]

definition Combine_op_definition :: OperatorDef where
  "Combine_op_definition =
     \<lparr>def_key = ''COMBINE'',
      def_inputs = map (\<lambda>idx. (''input_'' @ str_nat idx, idx \<ge> 2)) [0..<MAX_NUM_ARGUMENTS],
      def_outputs = [''output''],
      def_attributes = []\<rparr>"

text \<open>
  The loop of \<open>Combine.__init__\<close> over \<open>inputs.items()\<close>, with the three variables it
  updates: \<open>first_input\<close>, \<open>all_unix_timestamp\<close> and the operator.
\<close>

fun Combine_loop ::
  "EventSetNode option \<Rightarrow> bool \<Rightarrow> 'v Operator \<Rightarrow> (string \<times> EventSetNode) list
     \<Rightarrow> error + (EventSetNode option \<times> bool \<times> 'v Operator)" where
  "Combine_loop first_input all_unix_timestamp self [] =
     Inr (first_input, all_unix_timestamp, self)"
| "Combine_loop first_input all_unix_timestamp self ((key, input) # rest) =
     (let first = (case first_input of None \<Rightarrow> input | Some f \<Rightarrow> f) in
      case check_compatible_features (schema first) (schema input) False of
        Inl e \<Rightarrow> Inl e
      | Inr _ \<Rightarrow>
          Combine_loop (Some first)
            (all_unix_timestamp \<and> is_unix_timestamp (schema input))
            (add_input key input self) rest)"

text \<open>
  \<open>Combine_init\<close> is the body of \<open>Combine.__init__\<close> on its keyword arguments.
  \<open>self_id\<close> is the identity of the operator, \<open>new_sampling\<close> that of the sampling
  the output node gets.
\<close>

definition Combine_init ::
  "nat \<Rightarrow> nat \<Rightarrow> (string \<times> EventSetNode) list \<Rightarrow> error + 'v Operator" where
  "Combine_init self_id new_sampling kwargs =
     (if length kwargs < 2 then Inl (ValueError At_least_two_arguments_should_be_provided)
      else if length kwargs \<ge> MAX_NUM_ARGUMENTS then Inl (ValueError Too_many_arguments_provided)
      else
        (case Combine_loop None True new_operator kwargs of
           Inl e \<Rightarrow> Inl e
         | Inr (first_input, all_unix_timestamp, op1) \<Rightarrow>
             (case first_input of
                None \<Rightarrow> Inl AssertionError
              | Some first \<Rightarrow>
                  (let op2 = add_output ''output''
                               (create_node_new_features_new_sampling
                                  (features (schema first)) (indexes (schema first))
                                  all_unix_timestamp new_sampling self_id) op1 in
                   case check Combine_op_definition op2 of
                     Inl e \<Rightarrow> Inl e
                   | Inr _ \<Rightarrow> Inr op2))))"

text \<open>
  The call \<open>Combine(...)\<close> binds its arguments to the signature
  \<open>__init__(self, **inputs)\<close>, which takes keyword arguments only: a positional argument
  is a \<open>TypeError\<close>, raised before the body runs.
\<close>

definition Combine_call ::
  "nat \<Rightarrow> nat \<Rightarrow> 'a list \<Rightarrow> (string \<times> EventSetNode) list \<Rightarrow> error + 'v Operator" where
  "Combine_call self_id new_sampling args kwargs =
     (if args \<noteq> [] then Inl TypeError else Combine_init self_id new_sampling kwargs)"

text \<open>
  The public function \<open>combine(*inputs)\<close>, on nodes. \<open>fresh\<close> is the next unused object
  identity; the function returns the next one with its result, so an unchanged counter means
  that no operator was constructed. The last line of the source is \<open>Combine(inputs)\<close>: the
  tuple of inputs is one positional argument.
\<close>

definition combine :: "EventSetNode list \<Rightarrow> nat \<Rightarrow> (error + EventSetNode) \<times> nat" where
  "combine inputs_tuple fresh =
     (if length inputs_tuple = 1 then (Inr (inputs_tuple ! 0), fresh)
      else
        ((case (Combine_call fresh (Suc fresh) [inputs_tuple] [] :: error + unit Operator) of
            Inl e \<Rightarrow> Inl e
          | Inr op \<Rightarrow>
              (case map_of (outputs op) ''output'' of
                 None \<Rightarrow> Inl KeyError
               | Some nd \<Rightarrow> Inr nd)),
         fresh + 2))"

section \<open>The NumPy backend\<close>

subsection \<open>Arrays\<close>

text \<open>
  An array is a list of elements of one of the six dtypes. An integer element is a
  mathematical integer; a float element is the real number it stands for, an infinity or NaN.
\<close>

datatype number = Finite real | PosInf | NegInf | NaN

datatype ndarray =
    BoolArray "bool list"
  | Int32Array "int list"
  | Int64Array "int list"
  | Float32Array "number list"
  | Float64Array "number list"
  | StrArray "string list"

fun array_dtype :: "ndarray \<Rightarrow> DType" where
  "array_dtype (BoolArray _) = BOOLEAN"
| "array_dtype (Int32Array _) = INT32"
| "array_dtype (Int64Array _) = INT64"
| "array_dtype (Float32Array _) = FLOAT32"
| "array_dtype (Float64Array _) = FLOAT64"
| "array_dtype (StrArray _) = STRING"

text \<open>
  The comparisons \<open>x < limit\<close> and \<open>x > limit\<close> of a float element with a limit of its
  own dtype; each is false on NaN.
\<close>

fun lt_limit :: "number \<Rightarrow> int \<Rightarrow> bool" where
  "lt_limit (Finite x) l = (x < of_int l)"
| "lt_limit NegInf l = True"
| "lt_limit PosInf l = False"
| "lt_limit NaN l = False"

fun gt_limit :: "number \<Rightarrow> int \<Rightarrow> bool" where
  "gt_limit (Finite x) l = (x > of_int l)"
| "gt_limit PosInf l = True"
| "gt_limit NegInf l = False"
| "gt_limit NaN l = False"

text \<open>
  NumPy compares a float array with a Python int in the dtype of the array: the int is
  converted to a float with \<open>p\<close> significant bits (24 for float32, 53 for float64), rounded
  to the nearest such float, a tie to the one with an even significand. \<open>bit_length\<close> is the
  number of binary digits of a number. The limits of the 32 and 64 bit integers are far inside
  the exponent range of both float dtypes, so the conversion never overflows.
\<close>

fun bit_length :: "nat \<Rightarrow> nat" where
  "bit_length n = (if n = 0 then 0 else Suc (bit_length (n div 2)))"

declare bit_length.simps [simp del]

definition round_to_float :: "nat \<Rightarrow> int \<Rightarrow> int" where
  "round_to_float p n =
     (let a = nat \<bar>n\<bar>; e = bit_length a - p in
      if e = 0 then n
      else
        (let q = a div 2 ^ e; r = a mod 2 ^ e; half = 2 ^ (e - 1);
             q' = (if r > half \<or> (r = half \<and> odd q) then q + 1 else q)
         in sgn n * int (q' * 2 ^ e)))"

subsection \<open>Cast (\<open>implementation/numpy/operators/cast.py\<close>)\<close>

text \<open>
  \<open>np.iinfo\<close> and \<open>np.finfo\<close> give the least and the greatest value of a dtype:
  \<open>np.iinfo\<close> as Python ints (\<open>python_int\<close>), \<open>np.finfo\<close> as NumPy floats of the
  dtype. The greatest float32 is \<open>2^128 - 2^104\<close>, the greatest float64
  \<open>2^1024 - 2^971\<close>. \<open>dtype_limits\<close> is the dict \<open>self._dtype_limits\<close>, with four keys.
\<close>

record limits =
  lmin :: int
  lmax :: int
  python_int :: bool

fun dtype_limits :: "DType \<Rightarrow> limits option" where
  "dtype_limits INT32 = Some \<lparr>lmin = - (2 ^ 31), lmax = 2 ^ 31 - 1, python_int = True\<rparr>"
| "dtype_limits INT64 = Some \<lparr>lmin = - (2 ^ 63), lmax = 2 ^ 63 - 1, python_int = True\<rparr>"
| "dtype_limits FLOAT32 =
     Some \<lparr>lmin = - (2 ^ 128 - 2 ^ 104), lmax = 2 ^ 128 - 2 ^ 104, python_int = False\<rparr>"
| "dtype_limits FLOAT64 =
     Some \<lparr>lmin = - (2 ^ 1024 - 2 ^ 971), lmax = 2 ^ 1024 - 2 ^ 971, python_int = False\<rparr>"
| "dtype_limits BOOLEAN = None"
| "dtype_limits STRING = None"

definition nocheck_dtypes :: "DType list" where
  "nocheck_dtypes = [BOOLEAN, STRING]"

definition can_overflow :: "DType \<Rightarrow> DType \<Rightarrow> error + bool" where
  "can_overflow origin_dtype dst_dtype =
     (if origin_dtype \<in> set nocheck_dtypes \<or> dst_dtype \<in> set nocheck_dtypes then Inr False
      else
        (case dtype_limits origin_dtype of
           None \<Rightarrow> Inl KeyError
         | Some lo \<Rightarrow>
             (case dtype_limits dst_dtype of
                None \<Rightarrow> Inl KeyError
              | Some ld \<Rightarrow> Inr (lmax lo > lmax ld))))"

text \<open>
  \<open>np.any((data < min) | (data > max))\<close>. An array of integers or booleans is compared
  with the limits exactly. An array of floats is compared in its own dtype, a Python int limit
  converted to that dtype first; a NumPy float limit is compared as it is. (Of the dtype pairs
  that \<open>_can_overflow\<close> lets through, only float64 to float32 has float limits, and the
  float32 limits are float64 values.) Comparing a string array with a number is a
  \<open>TypeError\<close>.
\<close>

definition int_outside :: "int list \<Rightarrow> limits \<Rightarrow> bool" where
  "int_outside xs l = list_ex (\<lambda>x. x < lmin l \<or> x > lmax l) xs"

definition float_outside :: "nat \<Rightarrow> number list \<Rightarrow> limits \<Rightarrow> bool" where
  "float_outside p vs l =
     (let lo = (if python_int l then round_to_float p (lmin l) else lmin l);
          hi = (if python_int l then round_to_float p (lmax l) else lmax l)
      in list_ex (\<lambda>v. lt_limit v lo \<or> gt_limit v hi) vs)"

fun any_outside :: "ndarray \<Rightarrow> limits \<Rightarrow> error + bool" where
  "any_outside (BoolArray bs) l = Inr (int_outside (map (\<lambda>b. if b then 1 else 0) bs) l)"
| "any_outside (Int32Array xs) l = Inr (int_outside xs l)"
| "any_outside (Int64Array xs) l = Inr (int_outside xs l)"
| "any_outside (Float32Array vs) l = Inr (float_outside 24 vs l)"
| "any_outside (Float64Array vs) l = Inr (float_outside 53 vs l)"
| "any_outside (StrArray _) l = Inl TypeError"

text \<open>
  \<open>_check_overflow\<close>. The \<open>and\<close> of the source evaluates its second operand only when
  \<open>_can_overflow\<close> is true.
\<close>

definition check_overflow :: "ndarray \<Rightarrow> DType \<Rightarrow> DType \<Rightarrow> error + unit" where
  "check_overflow arr origin_dtype dst_dtype =
     (case can_overflow origin_dtype dst_dtype of
        Inl e \<Rightarrow> Inl e
      | Inr can \<Rightarrow>
          if \<not> can then Inr ()
          else
            (case dtype_limits dst_dtype of
               None \<Rightarrow> Inl KeyError
             | Some l \<Rightarrow>
                 (case any_outside arr l of
                    Inl e \<Rightarrow> Inl e
                  | Inr outside \<Rightarrow>
                      if outside then Inl (ValueError (Overflow_casting origin_dtype dst_dtype))
                      else Inr ())))"

text \<open>
  Features and events are objects: \<open>feature_id\<close> and \<open>event_id\<close> are their identities, so
  two records are equal only if they are the same object. The dtype of a feature is that of its
  array. \<open>NumpyFeature\<close> and \<open>NumpyEvent\<close> are not among the sources; \<open>dtypes\<close> is the dict
  of the names and dtypes of the features of the first index value.
\<close>

record NumpyFeature =
  feature_id :: nat
  name :: string
  feature_data :: ndarray

definition feature_dtype :: "NumpyFeature \<Rightarrow> DType" where
  "feature_dtype f = array_dtype (feature_data f)"

record 'k NumpyEvent =
  event_id :: nat
  event_data :: "('k \<times> NumpyFeature list) list"
  sampling :: nat

definition dtypes :: "'k NumpyEvent \<Rightarrow> (string \<times> DType) list" where
  "dtypes event =
     (case event_data event of
        [] \<Rightarrow> []
      | (_, fs) # _ \<Rightarrow> fold (\<lambda>f d. AList.update (name f) (feature_dtype f) d) fs [])"

text \<open>
  The generator under \<open>all(...)\<close>: it stops at the first feature whose dtype differs from
  its target, and a feature without a target is a \<open>KeyError\<close>.
\<close>

fun all_same_dtype :: "(string \<rightharpoonup> DType) \<Rightarrow> (string \<times> DType) list \<Rightarrow> error + bool" where
  "all_same_dtype target_dtypes [] = Inr True"
| "all_same_dtype target_dtypes ((feature_name, orig_dtype) # rest) =
     (case target_dtypes feature_name of
        None \<Rightarrow> Inl KeyError
      | Some t \<Rightarrow> if orig_dtype = t then all_same_dtype target_dtypes rest else Inr False)"

text \<open>
  The inner loop over the features of one index value. \<open>astype\<close> is NumPy's conversion
  of an array to a dtype, a parameter of the model. A converted feature is a new object and
  takes the identity \<open>fresh\<close>.
\<close>

fun cast_features ::
  "(ndarray \<Rightarrow> DType \<Rightarrow> error + ndarray) \<Rightarrow> (string \<rightharpoonup> DType) \<Rightarrow> bool
     \<Rightarrow> NumpyFeature list \<Rightarrow> NumpyFeature list \<Rightarrow> nat \<Rightarrow> error + (NumpyFeature list \<times> nat)" where
  "cast_features astype target_dtypes check_overflow_attr [] out fresh = Inr (out, fresh)"
| "cast_features astype target_dtypes check_overflow_attr (feature # rest) out fresh =
     (case target_dtypes (name feature) of
        None \<Rightarrow> Inl KeyError
      | Some dst_dtype \<Rightarrow>
          if feature_dtype feature = dst_dtype
          then cast_features astype target_dtypes check_overflow_attr rest (out @ [feature]) fresh
          else
            (case (if check_overflow_attr
                   then check_overflow (feature_data feature) (feature_dtype feature) dst_dtype
                   else Inr ()) of
               Inl e \<Rightarrow> Inl e
             | Inr _ \<Rightarrow>
                 (case astype (feature_data feature) dst_dtype of
                    Inl e \<Rightarrow> Inl e
                  | Inr converted \<Rightarrow>
                      cast_features astype target_dtypes check_overflow_attr rest
                        (out @ [\<lparr>feature_id = fresh, name = name feature,
                                  feature_data = converted\<rparr>])
                        (Suc fresh))))"

text \<open>The outer loop over \<open>event.data.items()\<close>.\<close>

fun cast_indexes ::
  "(ndarray \<Rightarrow> DType \<Rightarrow> error + ndarray) \<Rightarrow> (string \<rightharpoonup> DType) \<Rightarrow> bool
     \<Rightarrow> ('k \<times> NumpyFeature list) list \<Rightarrow> ('k \<times> NumpyFeature list) list \<Rightarrow> nat
     \<Rightarrow> error + (('k \<times> NumpyFeature list) list \<times> nat)" where
  "cast_indexes astype target_dtypes check_overflow_attr [] out fresh = Inr (out, fresh)"
| "cast_indexes astype target_dtypes check_overflow_attr ((event_index, fs) # rest) out fresh =
     (case cast_features astype target_dtypes check_overflow_attr fs [] fresh of
        Inl e \<Rightarrow> Inl e
      | Inr (new_features, fresh') \<Rightarrow>
          cast_indexes astype target_dtypes check_overflow_attr rest
            (AList.update event_index new_features out) fresh')"

text \<open>
  \<open>CastNumpyImplementation.__call__\<close>, with the two attributes of the operator as
  arguments. The new event is a new object and takes the identity \<open>fresh\<close>.
\<close>

definition CastNumpyImplementation_call ::
  "(ndarray \<Rightarrow> DType \<Rightarrow> error + ndarray) \<Rightarrow> (string \<rightharpoonup> DType) \<Rightarrow> bool
     \<Rightarrow> 'k NumpyEvent \<Rightarrow> nat \<Rightarrow> error + ((string \<times> 'k NumpyEvent) list \<times> nat)" where
  "CastNumpyImplementation_call astype target_dtypes check_overflow_attr event fresh =
     (case all_same_dtype target_dtypes (dtypes event) of
        Inl e \<Rightarrow> Inl e
      | Inr same \<Rightarrow>
          if same then Inr ([(''event'', event)], fresh)
          else
            (case cast_indexes astype target_dtypes check_overflow_attr
                    (event_data event) [] (Suc fresh) of
               Inl e \<Rightarrow> Inl e
             | Inr (out_data, fresh') \<Rightarrow>
                 Inr ([(''event'',
                        \<lparr>event_id = fresh, event_data = out_data, sampling = sampling event\<rparr>)],
                      fresh')))"

subsection \<open>Where (\<open>implementation/numpy/operators/where.py\<close>)\<close>

text \<open>
  Modelled from the spec: \<open>IndexData\<close> and \<open>EventSet\<close> are not among the sources. An
  \<open>IndexData\<close> holds its list of feature arrays and its timestamps, an \<open>EventSet\<close> a dict
  from index keys to \<open>IndexData\<close> and a schema; \<open>set_index_value\<close> stores a value under
  a key.
\<close>

record IndexData =
  index_features :: "ndarray list"
  timestamps :: "real list"

record 'k EventSet =
  data :: "('k \<times> IndexData) list"
  evset_schema :: Schema

definition set_index_value :: "'k \<Rightarrow> IndexData \<Rightarrow> 'k EventSet \<Rightarrow> 'k EventSet" where
  "set_index_value index_key v evset = evset\<lparr>data := AList.update index_key v (data evset)\<rparr>"

text \<open>\<open>OperatorImplementation.output_schema\<close>: the schema of a named output of the operator.\<close>

definition output_schema :: "'v Operator \<Rightarrow> string \<Rightarrow> error + Schema" where
  "output_schema operator key =
     (case map_of (outputs operator) key of
        None \<Rightarrow> Inl KeyError
      | Some nd \<Rightarrow> Inr (schema nd))"

definition WhereNumpyImplementation_call ::
  "'v Operator \<Rightarrow> 'k EventSet \<Rightarrow> error + (string \<times> 'k EventSet) list" where
  "WhereNumpyImplementation_call operator input =
     (case output_schema operator ''output'' of
        Inl e \<Rightarrow> Inl e
      | Inr out_schema \<Rightarrow>
          Inr [(''output'',
                fold (\<lambda>(index_key, index_data) output_evset.
                        set_index_value index_key
                          \<lparr>index_features = [], timestamps = [1]\<rparr> output_evset)
                     (data input)
                     \<lparr>data = [], evset_schema = out_schema\<rparr>)])"

section \<open>Properties of the \<open>Where\<close> operator\<close>

text \<open>
  C7. Constructing a \<open>Where\<close> operator fails with the error of the input check (the
  specification's DTypeConstraintError, in the source a \<open>ValueError\<close> "Input should have
  only 1 boolean feature") unless the input's schema has exactly one feature and that
  feature is BOOLEAN, whatever the two branches are. An input with two boolean features
  fails, and so does an input with one feature that is not boolean.
\<close>

theorem Where_init_input_check:
  "(\<not> (\<exists>nm. features (schema input) = [(nm, BOOLEAN)]) \<longrightarrow>
      Where_init infer self_id input on_true on_false
        = Inl (ValueError Input_should_have_only_1_boolean_feature))
   \<and> (features (schema input) = [(a, BOOLEAN), (b, BOOLEAN)] \<longrightarrow>
      Where_init infer self_id input on_true on_false
        = Inl (ValueError Input_should_have_only_1_boolean_feature))
   \<and> (features (schema input) = [(a, d)] \<and> d \<noteq> BOOLEAN \<longrightarrow>
      Where_init infer self_id input on_true on_false
        = Inl (ValueError Input_should_have_only_1_boolean_feature))"
proof -
  have general: "Where_init infer self_id input on_true on_false
        = Inl (ValueError Input_should_have_only_1_boolean_feature)"
    if "\<not> (\<exists>nm. features (schema input) = [(nm, BOOLEAN)])"
  proof (cases "features (schema input)")
    case Nil
    then show ?thesis by (simp add: Where_init_def feature_dtypes_def)
  next
    case (Cons p ps)
    show ?thesis
    proof (cases ps)
      case Nil
      with Cons that have "snd p \<noteq> BOOLEAN" by (cases p) auto
      with Cons Nil show ?thesis by (simp add: Where_init_def feature_dtypes_def)
    next
      case (Cons q qs)
      with \<open>features (schema input) = p # ps\<close> show ?thesis
        by (simp add: Where_init_def feature_dtypes_def)
    qed
  qed
  show ?thesis using general by auto
qed

theorem Where_init_input_check_witness:
  "Where_init (\<lambda>v::int. Inr INT64) 5
     \<lparr>schema = \<lparr>features = [(''a'', BOOLEAN), (''b'', BOOLEAN)], indexes = [],
                is_unix_timestamp = False\<rparr>,
      sampling_node = 0, creator = None\<rparr> (Value 1) (Value 2)
   = Inl (ValueError Input_should_have_only_1_boolean_feature)
   \<and> Where_init (\<lambda>v::int. Inr INT64) 5
     \<lparr>schema = \<lparr>features = [(''a'', INT64)], indexes = [], is_unix_timestamp = False\<rparr>,
      sampling_node = 0, creator = None\<rparr> (Value 1) (Value 2)
   = Inl (ValueError Input_should_have_only_1_boolean_feature)
   \<and> Where_init (\<lambda>v::int. Inr INT64) 5
     \<lparr>schema = \<lparr>features = [], indexes = [], is_unix_timestamp = False\<rparr>,
      sampling_node = 0, creator = None\<rparr> (Value 1) (Value 2)
   = Inl (ValueError Input_should_have_only_1_boolean_feature)"
  using Where_init_input_check [where input =
      "\<lparr>schema = \<lparr>features = [(''a'', BOOLEAN), (''b'', BOOLEAN)], indexes = [],
                is_unix_timestamp = False\<rparr>, sampling_node = 0, creator = None\<rparr>"
      and infer = "\<lambda>v::int. Inr INT64" and self_id = 5 and on_true = "Value 1"
      and on_false = "Value 2" and a = "''a''" and b = "''b''"]
    Where_init_input_check [where input =
      "\<lparr>schema = \<lparr>features = [(''a'', INT64)], indexes = [],
                is_unix_timestamp = False\<rparr>, sampling_node = 0, creator = None\<rparr>"
      and infer = "\<lambda>v::int. Inr INT64" and self_id = 5 and on_true = "Value 1"
      and on_false = "Value 2" and a = "''a''" and d = INT64]
    Where_init_input_check [where input =
      "\<lparr>schema = \<lparr>features = [], indexes = [],
                is_unix_timestamp = False\<rparr>, sampling_node = 0, creator = None\<rparr>"
      and infer = "\<lambda>v::int. Inr INT64" and self_id = 5 and on_true = "Value 1"
      and on_false = "Value 2"]
  by simp

text \<open>
  The dtype that \<open>_add_argument\<close> returns for an argument does not depend on the state of
  the operator or on the name of the argument.
\<close>

lemma add_argument_dtype_any_operator:
  "add_argument infer s1 arg n1 input = Inr (d, o1) \<Longrightarrow>
   \<exists>o2. add_argument infer s2 arg n2 input = Inr (d, o2)"
  by (auto simp: add_argument_def Let_def split: argument.splits sum.splits if_splits)

lemma add_argument_inputs:
  "add_argument infer s arg n input = Inr (d, s') \<Longrightarrow>
   outputs s' = outputs s \<and> (map_of (inputs s) ''input'' = Some x \<longrightarrow> n \<noteq> ''input'' \<longrightarrow> map_of (inputs s') ''input'' = Some x)"
  by (auto simp: add_argument_def Let_def add_input_def add_attribute_def update_conv' split: argument.splits sum.splits if_splits)

text \<open>
  When \<open>_add_argument\<close> accepts an argument, and what it returns then: a node must be on the
  sampling of the input and have exactly one feature, a single value must have a dtype that
  can be inferred. A node on another sampling is refused with a sampling mismatch, before any
  dtype is compared.
\<close>

lemma singleton_list_iff: "(length xs = 1 \<and> xs ! 0 = d) \<longleftrightarrow> xs = [d]"
  by (cases xs) auto

lemma add_argument_result:
  "add_argument infer self (Node nd) arg_name input = Inr (d, self') \<longleftrightarrow>
     sampling_node input = sampling_node nd \<and> feature_dtypes (schema nd) = [d]
     \<and> self' = add_input arg_name nd self"
  "add_argument infer self (Value v) arg_name input = Inr (d, self') \<longleftrightarrow>
     infer v = Inr d
     \<and> self' = add_attribute arg_name v
                 (self\<lparr>on_attributes := AList.update arg_name v (on_attributes self)\<rparr>)"
proof -
  show "add_argument infer self (Node nd) arg_name input = Inr (d, self') \<longleftrightarrow>
     sampling_node input = sampling_node nd \<and> feature_dtypes (schema nd) = [d]
     \<and> self' = add_input arg_name nd self"
    using singleton_list_iff[of "feature_dtypes (schema nd)" d]
    by (auto simp: add_argument_def check_same_sampling_def Let_def)
  show "add_argument infer self (Value v) arg_name input = Inr (d, self') \<longleftrightarrow>
     infer v = Inr d
     \<and> self' = add_attribute arg_name v
                 (self\<lparr>on_attributes := AList.update arg_name v (on_attributes self)\<rparr>)"
    by (auto simp: add_argument_def split: sum.splits)
qed

lemma Where_init_other_sampling:
  assumes "feature_dtypes (schema input) = [BOOLEAN]"
    and "sampling_node nd \<noteq> sampling_node input"
  shows "Where_init infer self_id input (Node nd) on_false = Inl SamplingMismatchError"
  using assms
  by (simp add: Where_init_def add_argument_def check_same_sampling_def)

text \<open>
  C8, as amended. The claim gives a node argument the dtype of its single feature whatever
  its sampling is; a node on another sampling is refused with a sampling mismatch, not with a
  dtype error (statement \<open>Where_init_other_sampling_differing_dtypes\<close>). What holds is about
  the arguments \<open>_add_argument\<close> accepts: a node on the sampling of the input with exactly
  one feature, whose resulting dtype is the dtype of that feature, and a single value, whose
  resulting dtype is the inferred one. Whenever both arguments are accepted and the two
  resulting dtypes differ, the construction fails with a dtype error: with "Arguments
  'on_true' and 'on_false' should have the same dtype" when the input has exactly one boolean
  feature, with the error of the input check otherwise. Nothing is coerced. When the
  construction succeeds, the only output is a node with exactly one feature, of the dtype of
  both branches, on the sampling of the input.
\<close>

theorem Where_init_branch_dtypes:
  "(add_argument infer opa on_true na input = Inr (true_dtype, opb)
      \<and> add_argument infer opc on_false nb input = Inr (false_dtype, opd)
      \<and> true_dtype \<noteq> false_dtype \<longrightarrow>
    Where_init infer self_id input on_true on_false =
      (if length (features (schema input)) = 1 \<and> snd (features (schema input) ! 0) = BOOLEAN
       then Inl (ValueError (Arguments_should_have_the_same_dtype true_dtype false_dtype))
       else Inl (ValueError Input_should_have_only_1_boolean_feature)))
   \<and> (Where_init infer self_id input on_true on_false = Inr op \<longrightarrow>
       (\<exists>nm d out o1 o2 o3 o4.
          add_argument infer o1 on_true ''on_true'' input = Inr (d, o2)
          \<and> add_argument infer o3 on_false ''on_false'' input = Inr (d, o4)
          \<and> outputs op = [(''output'', out)]
          \<and> features (schema out) = [(nm, d)]
          \<and> sampling_node out = sampling_node input))"
proof (intro conjI impI)
  assume a: "add_argument infer opa on_true na input = Inr (true_dtype, opb)
      \<and> add_argument infer opc on_false nb input = Inr (false_dtype, opd)
      \<and> true_dtype \<noteq> false_dtype"
  let ?op1 = "add_input ''input'' input (new_operator :: 'a Operator)"
  from a obtain o2 where t: "add_argument infer ?op1 on_true ''on_true'' input = Inr (true_dtype, o2)"
    using add_argument_dtype_any_operator by blast
  from a obtain o3 where f: "add_argument infer o2 on_false ''on_false'' input = Inr (false_dtype, o3)"
    using add_argument_dtype_any_operator by blast
  from a t f show "Where_init infer self_id input on_true on_false =
      (if length (features (schema input)) = 1 \<and> snd (features (schema input) ! 0) = BOOLEAN
       then Inl (ValueError (Arguments_should_have_the_same_dtype true_dtype false_dtype))
       else Inl (ValueError Input_should_have_only_1_boolean_feature))"
    by (simp add: Where_init_def Let_def feature_dtypes_def)
next
  assume ok: "Where_init infer self_id input on_true on_false = Inr op"
  let ?op1 = "add_input ''input'' input (new_operator :: 'a Operator)"
  from ok obtain td o2 where t: "add_argument infer ?op1 on_true ''on_true'' input = Inr (td, o2)"
    by (auto simp: Where_init_def Let_def split: if_splits sum.splits)
  from ok t obtain fd o3 where f: "add_argument infer o2 on_false ''on_false'' input = Inr (fd, o3)"
    by (auto simp: Where_init_def Let_def split: if_splits sum.splits)
  from ok t f have eq: "td = fd"
    by (auto simp: Where_init_def Let_def split: if_splits sum.splits)
  from ok t f eq obtain nm where nm: "output_feature_name o3 = Inr nm"
    by (auto simp: Where_init_def Let_def split: if_splits sum.splits)
  from ok t f eq nm have op: "op = add_output ''output'' (create_node_new_features_existing_sampling [(nm, td)] input self_id) o3"
    by (auto simp: Where_init_def Let_def split: if_splits sum.splits)
  have "outputs o3 = []"
    using add_argument_inputs[OF t] add_argument_inputs[OF f]
    by (simp add: add_input_def new_operator_def)
  with op have "outputs op = [(''output'', create_node_new_features_existing_sampling [(nm, td)] input self_id)]"
    by (simp add: add_output_def)
  with t f eq show "\<exists>nm d out o1 o2 o3 o4.
          add_argument infer o1 on_true ''on_true'' input = Inr (d, o2)
          \<and> add_argument infer o3 on_false ''on_false'' input = Inr (d, o4)
          \<and> outputs op = [(''output'', out)]
          \<and> features (schema out) = [(nm, d)]
          \<and> sampling_node out = sampling_node input"
    by (auto simp: create_node_new_features_existing_sampling_def)
qed

theorem Where_init_branch_dtypes_witness:
  "Where_init (\<lambda>v::int. Inr INT64) 5
     \<lparr>schema = \<lparr>features = [(''cond'', BOOLEAN)], indexes = [], is_unix_timestamp = False\<rparr>,
      sampling_node = 0, creator = None\<rparr>
     (Node \<lparr>schema = \<lparr>features = [(''x'', FLOAT64)], indexes = [], is_unix_timestamp = False\<rparr>,
            sampling_node = 0, creator = None\<rparr>)
     (Value 1)
   = Inl (ValueError (Arguments_should_have_the_same_dtype FLOAT64 INT64))
   \<and> (\<exists>op out.
         Where_init (\<lambda>v::int. Inr INT64) 5
           \<lparr>schema = \<lparr>features = [(''cond'', BOOLEAN)], indexes = [], is_unix_timestamp = False\<rparr>,
            sampling_node = 0, creator = None\<rparr>
           (Value 1) (Value 2) = Inr op
         \<and> outputs op = [(''output'', out)]
         \<and> features (schema out) = [(''cond'', INT64)]
         \<and> sampling_node out = 0)"
proof -
  let ?infer = "\<lambda>v::int. (Inr INT64 :: error + DType)"
  let ?input = "\<lparr>schema = \<lparr>features = [(''cond'', BOOLEAN)], indexes = [], is_unix_timestamp = False\<rparr>,
      sampling_node = 0, creator = None\<rparr>"
  let ?x = "\<lparr>schema = \<lparr>features = [(''x'', FLOAT64)], indexes = [], is_unix_timestamp = False\<rparr>,
            sampling_node = 0, creator = None\<rparr>"
  have t: "add_argument ?infer new_operator (Node ?x) ''on_true'' ?input
             = Inr (FLOAT64, add_input ''on_true'' ?x new_operator)"
    by (simp add: add_argument_def check_same_sampling_def feature_dtypes_def)
  have f: "add_argument ?infer new_operator (Value 1) ''on_false'' ?input
             = Inr (INT64, add_attribute ''on_false'' 1
                      (new_operator\<lparr>on_attributes := AList.update ''on_false'' 1 (on_attributes new_operator)\<rparr>))"
    by (simp add: add_argument_def)
  have first: "Where_init ?infer 5 ?input (Node ?x) (Value 1)
                 = Inl (ValueError (Arguments_should_have_the_same_dtype FLOAT64 INT64))"
    using Where_init_branch_dtypes [where infer = ?infer and opa = new_operator
        and on_true = "Node ?x" and na = "''on_true''" and input = ?input and true_dtype = FLOAT64
        and opc = new_operator and on_false = "Value 1" and nb = "''on_false''"
        and false_dtype = INT64 and self_id = 5] t f
    by simp
  have ok: "\<exists>op. Where_init ?infer 5 ?input (Value 1) (Value 2) = Inr op"
    by (simp add: Where_init_def add_argument_def feature_dtypes_def feature_names_def
        output_feature_name_def add_input_def add_output_def add_attribute_def new_operator_def
        check_def slots_ok_def Where_op_definition_def
        create_node_new_features_existing_sampling_def)
  then obtain op where op: "Where_init ?infer 5 ?input (Value 1) (Value 2) = Inr op" ..
  from Where_init_branch_dtypes [where infer = ?infer and on_true = "Value 1" and input = ?input
      and on_false = "Value 2" and self_id = 5 and op = op] op
  obtain nm d out o1 o2 o3 o4 where
    r: "add_argument ?infer o1 (Value 1) ''on_true'' ?input = Inr (d, o2)"
       "outputs op = [(''output'', out)]" "features (schema out) = [(nm, d)]"
       "sampling_node out = sampling_node ?input"
    by blast
  from r(1) have "d = INT64" by (simp add: add_argument_def)
  moreover from op r(2,3) have "nm = ''cond''"
    by (simp add: Where_init_def add_argument_def feature_dtypes_def feature_names_def
        output_feature_name_def add_input_def add_output_def add_attribute_def new_operator_def
        check_def slots_ok_def Where_op_definition_def
        create_node_new_features_existing_sampling_def split: if_splits) auto
  ultimately show ?thesis using first op r by auto
qed

theorem Where_init_other_sampling_differing_dtypes:
  "feature_dtypes (schema \<lparr>schema = \<lparr>features = [(''x'', FLOAT64)], indexes = [], is_unix_timestamp = False\<rparr>, sampling_node = 7, creator = None\<rparr>) = [FLOAT64]
   \<and> Where_init (\<lambda>v::int. Inr INT64) 5 \<lparr>schema = \<lparr>features = [(''cond'', BOOLEAN)], indexes = [], is_unix_timestamp = False\<rparr>, sampling_node = 0, creator = None\<rparr> (Node \<lparr>schema = \<lparr>features = [(''x'', FLOAT64)], indexes = [], is_unix_timestamp = False\<rparr>, sampling_node = 7, creator = None\<rparr>) (Value 1)
       = Inl SamplingMismatchError
   \<and> Where_init (\<lambda>v::int. Inr INT64) 5 \<lparr>schema = \<lparr>features = [(''cond'', BOOLEAN)], indexes = [], is_unix_timestamp = False\<rparr>, sampling_node = 0, creator = None\<rparr> (Node \<lparr>schema = \<lparr>features = [(''x'', FLOAT64)], indexes = [], is_unix_timestamp = False\<rparr>, sampling_node = 7, creator = None\<rparr>) (Value 1)
       \<noteq> Inl (ValueError (Arguments_should_have_the_same_dtype FLOAT64 INT64))"
  by (simp add: Where_init_def add_argument_def check_same_sampling_def feature_dtypes_def)

section \<open>Properties of the \<open>Combine\<close> operator\<close>

text \<open>
  What the loop of \<open>Combine.__init__\<close> returns: the first input, the conjunction of the
  unix flags, and an operator whose outputs are untouched; it fails only with a schema
  mismatch.
\<close>

lemma list_all_snd:
  "list_all (\<lambda>(k, n). P n) kw \<longleftrightarrow> (\<forall>n \<in> snd ` set kw. P n)"
  by (induction kw) auto

lemma Combine_loop_result:
  "Combine_loop first u (self :: 'v Operator) kw = Inr (first', u', self') \<Longrightarrow>
     first' = (case first of Some f \<Rightarrow> Some f | None \<Rightarrow> (case kw of [] \<Rightarrow> None | (k, n) # _ \<Rightarrow> Some n))
     \<and> u' = (u \<and> list_all (\<lambda>(k, n). is_unix_timestamp (schema n)) kw)
     \<and> outputs self' = outputs self
     \<and> (\<forall>f. first' = Some f \<longrightarrow>
           list_all (\<lambda>(k, n). set (features (schema n)) = set (features (schema f))) kw)"
proof (induction kw arbitrary: first u self)
  case Nil
  then show ?case by (auto split: option.splits)
next
  case (Cons a kw)
  obtain key input where a: "a = (key, input)" by (cases a)
  let ?first = "case first of None \<Rightarrow> input | Some f \<Rightarrow> f"
  from Cons.prems a have compat: "set (features (schema ?first)) = set (features (schema input))"
    by (auto simp: Let_def check_compatible_features_def split: sum.splits if_splits)
  from Cons.prems a compat
  have rec: "Combine_loop (Some ?first) (u \<and> is_unix_timestamp (schema input))
               (add_input key input self) kw = Inr (first', u', self')"
    by (auto simp: Let_def check_compatible_features_def split: sum.splits if_splits)
  from Cons.IH[OF rec] a compat show ?case
    by (auto simp: add_input_def split: option.splits)
qed



lemma Combine_loop_error:
  "Combine_loop first u (self :: 'v Operator) kw = Inl e \<Longrightarrow> e = SchemaMismatchError"
proof (induction kw arbitrary: first u self)
  case Nil
  then show ?case by simp
next
  case (Cons a kw)
  obtain key input where a: "a = (key, input)" by (cases a)
  from Cons.prems a Cons.IH show ?case
    by (auto simp: Let_def check_compatible_features_def split: sum.splits if_splits)
qed

lemma Combine_init_success:
  assumes "Combine_init sid ns kw = Inr (op :: 'v Operator)"
  shows "\<exists>k first rest. kw = (k, first) # rest
           \<and> 2 \<le> length kw \<and> length kw < MAX_NUM_ARGUMENTS
           \<and> list_all (\<lambda>(k, n). set (features (schema n)) = set (features (schema first))) kw
           \<and> outputs op = [(''output'',
                 create_node_new_features_new_sampling (features (schema first))
                   (indexes (schema first))
                   (list_all (\<lambda>(k, n). is_unix_timestamp (schema n)) kw) ns sid)]"
proof -
  from assms have len: "2 \<le> length kw" "length kw < MAX_NUM_ARGUMENTS"
    by (auto simp: Combine_init_def split: if_splits)
  then obtain k first rest where kw: "kw = (k, first) # rest"
    by (cases kw) auto
  from assms len obtain fo u op1 where
    loop: "Combine_loop None True (new_operator :: 'v Operator) kw = Inr (fo, u, op1)"
    by (auto simp: Combine_init_def split: if_splits sum.splits)
  note res = Combine_loop_result[OF loop]
  from res kw have r1: "fo = Some first" by simp
  from res have r2: "u = list_all (\<lambda>(k, n). is_unix_timestamp (schema n)) kw" by simp
  from res have r3: "outputs op1 = []" by (simp add: new_operator_def)
  from res r1
  have r4: "list_all (\<lambda>(k, n). set (features (schema n)) = set (features (schema first))) kw"
    by blast
  note r = r1 r2 r3 r4
  from assms len loop r(1)
  have "op = add_output ''output''
               (create_node_new_features_new_sampling (features (schema first))
                  (indexes (schema first)) u ns sid) op1"
    by (auto simp: Combine_init_def Let_def split: if_splits sum.splits)
  with r(3) have "outputs op = [(''output'',
                 create_node_new_features_new_sampling (features (schema first))
                   (indexes (schema first)) u ns sid)]"
    by (simp add: add_output_def)
  with kw len r2 r4 show ?thesis by simp
qed

lemma Combine_init_error:
  assumes "(Combine_init self_id new_sampling kwargs :: error + 'v Operator) = Inl e"
    and len: "\<not> length kwargs < 2" "\<not> MAX_NUM_ARGUMENTS \<le> length kwargs"
  shows "e = SchemaMismatchError \<or> e = AssertionError \<or> e = MalformedOperatorError"
proof (cases "Combine_loop None True (new_operator :: 'v Operator) kwargs")
  case (Inl e')
  with assms have "e = e'" by (simp add: Combine_init_def)
  with Combine_loop_error[OF Inl] show ?thesis by simp
next
  case (Inr r)
  obtain fo u op1 where r: "r = (fo, u, op1)" by (cases r)
  show ?thesis
  proof (cases fo)
    case None
    with assms Inr r show ?thesis by (simp add: Combine_init_def)
  next
    case (Some first)
    with assms Inr r show ?thesis
      by (simp add: Combine_init_def Let_def check_def split: sum.splits if_splits)
  qed
qed

lemma Combine_example:
  "(Combine_call 7 8 ([] :: unit list) [(''input_0'', \<lparr>schema = \<lparr>features = [(''A'', INT64), (''B'', INT64)], indexes = [(''store'', STRING)], is_unix_timestamp = True\<rparr>, sampling_node = 0, creator = None\<rparr>), (''input_1'', \<lparr>schema = \<lparr>features = [(''B'', INT64), (''A'', INT64)], indexes = [(''store'', STRING)], is_unix_timestamp = False\<rparr>, sampling_node = 1, creator = None\<rparr>)] :: error + unit Operator)
   = Inr \<lparr>inputs = [(''input_0'', \<lparr>schema = \<lparr>features = [(''A'', INT64), (''B'', INT64)], indexes = [(''store'', STRING)], is_unix_timestamp = True\<rparr>, sampling_node = 0, creator = None\<rparr>), (''input_1'', \<lparr>schema = \<lparr>features = [(''B'', INT64), (''A'', INT64)], indexes = [(''store'', STRING)], is_unix_timestamp = False\<rparr>, sampling_node = 1, creator = None\<rparr>)],
          outputs = [(''output'',
             \<lparr>schema = \<lparr>features = [(''A'', INT64), (''B'', INT64)],
                        indexes = [(''store'', STRING)], is_unix_timestamp = False\<rparr>,
              sampling_node = 8, creator = Some 7\<rparr>)],
          attributes = [], on_attributes = []\<rparr>"
  by code_simp

lemma Combine_example_unix:
  "(Combine_call 7 8 ([] :: unit list) [(''input_0'', \<lparr>schema = \<lparr>features = [(''A'', INT64), (''B'', INT64)], indexes = [(''store'', STRING)], is_unix_timestamp = True\<rparr>, sampling_node = 0, creator = None\<rparr>), (''input_1'', \<lparr>schema = \<lparr>features = [(''A'', INT64), (''B'', INT64)], indexes = [(''store'', STRING)], is_unix_timestamp = True\<rparr>, sampling_node = 0, creator = None\<rparr>)] :: error + unit Operator)
   = Inr \<lparr>inputs = [(''input_0'', \<lparr>schema = \<lparr>features = [(''A'', INT64), (''B'', INT64)], indexes = [(''store'', STRING)], is_unix_timestamp = True\<rparr>, sampling_node = 0, creator = None\<rparr>), (''input_1'', \<lparr>schema = \<lparr>features = [(''A'', INT64), (''B'', INT64)], indexes = [(''store'', STRING)], is_unix_timestamp = True\<rparr>, sampling_node = 0, creator = None\<rparr>)],
          outputs = [(''output'',
             \<lparr>schema = \<lparr>features = [(''A'', INT64), (''B'', INT64)],
                        indexes = [(''store'', STRING)], is_unix_timestamp = True\<rparr>,
              sampling_node = 8, creator = Some 7\<rparr>)],
          attributes = [], on_attributes = []\<rparr>"
  by code_simp

text \<open>
  C3, as amended. The claim says that the public function \<open>combine\<close> fails with one
  argument; it returns the argument instead (statement \<open>combine_one_argument_returns\<close>).
  What holds is the count check of the constructor: \<open>Combine.__init__\<close> fails with "At
  least two arguments should be provided" on fewer than two inputs and with "Too many
  arguments provided" on 30 inputs or more, with neither on 2 to 29 inputs, and
  \<open>combine\<close> with exactly one argument does not fail.
\<close>

theorem Combine_argument_count:
  "(length kwargs < 2 \<longrightarrow>
      (Combine_call self_id new_sampling ([] :: unit list) kwargs :: error + 'v Operator)
        = Inl (ValueError At_least_two_arguments_should_be_provided))
   \<and> (30 \<le> length kwargs \<longrightarrow>
      (Combine_call self_id new_sampling ([] :: unit list) kwargs :: error + 'v Operator)
        = Inl (ValueError Too_many_arguments_provided))
   \<and> (2 \<le> length kwargs \<and> length kwargs < 30 \<longrightarrow>
      (Combine_call self_id new_sampling ([] :: unit list) kwargs :: error + 'v Operator)
        \<noteq> Inl (ValueError At_least_two_arguments_should_be_provided)
      \<and> (Combine_call self_id new_sampling ([] :: unit list) kwargs :: error + 'v Operator)
        \<noteq> Inl (ValueError Too_many_arguments_provided))
   \<and> fst (combine [x] fresh) = Inr x"
proof -
  have few: "(Combine_call self_id new_sampling ([] :: unit list) kwargs :: error + 'v Operator)
        = Inl (ValueError At_least_two_arguments_should_be_provided)" if "length kwargs < 2"
    using that by (simp add: Combine_call_def Combine_init_def)
  have many: "(Combine_call self_id new_sampling ([] :: unit list) kwargs :: error + 'v Operator)
        = Inl (ValueError Too_many_arguments_provided)" if "30 \<le> length kwargs"
    using that by (simp add: Combine_call_def Combine_init_def MAX_NUM_ARGUMENTS_def)
  have between: "(Combine_call self_id new_sampling ([] :: unit list) kwargs :: error + 'v Operator)
        \<noteq> Inl (ValueError m)" if "2 \<le> length kwargs \<and> length kwargs < 30" for m
  proof
    assume "(Combine_call self_id new_sampling ([] :: unit list) kwargs :: error + 'v Operator)
        = Inl (ValueError m)"
    then have "(Combine_init self_id new_sampling kwargs :: error + 'v Operator) = Inl (ValueError m)"
      by (simp add: Combine_call_def)
    from Combine_init_error[OF this] that show False
      by (simp add: MAX_NUM_ARGUMENTS_def)
  qed
  have single: "fst (combine [x] fresh) = Inr x"
    by (simp add: combine_def)
  from few many between single show ?thesis by blast
qed

theorem Combine_argument_count_witness:
  "(Combine_call 7 8 ([] :: unit list) [(''input_0'', \<lparr>schema = \<lparr>features = [(''A'', INT64), (''B'', INT64)], indexes = [(''store'', STRING)], is_unix_timestamp = True\<rparr>, sampling_node = 0, creator = None\<rparr>)] :: error + unit Operator)
     = Inl (ValueError At_least_two_arguments_should_be_provided)
   \<and> (Combine_call 7 8 ([] :: unit list)
        (map (\<lambda>idx. (''input_'' @ str_nat idx, \<lparr>schema = \<lparr>features = [(''A'', INT64), (''B'', INT64)], indexes = [(''store'', STRING)], is_unix_timestamp = True\<rparr>, sampling_node = 0, creator = None\<rparr>)) [0..<30]) :: error + unit Operator)
     = Inl (ValueError Too_many_arguments_provided)
   \<and> (Combine_call 7 8 ([] :: unit list) [(''input_0'', \<lparr>schema = \<lparr>features = [(''A'', INT64), (''B'', INT64)], indexes = [(''store'', STRING)], is_unix_timestamp = True\<rparr>, sampling_node = 0, creator = None\<rparr>), (''input_1'', \<lparr>schema = \<lparr>features = [(''B'', INT64), (''A'', INT64)], indexes = [(''store'', STRING)], is_unix_timestamp = False\<rparr>, sampling_node = 1, creator = None\<rparr>)] :: error + unit Operator)
     \<noteq> Inl (ValueError At_least_two_arguments_should_be_provided)
   \<and> (Combine_call 7 8 ([] :: unit list) [(''input_0'', \<lparr>schema = \<lparr>features = [(''A'', INT64), (''B'', INT64)], indexes = [(''store'', STRING)], is_unix_timestamp = True\<rparr>, sampling_node = 0, creator = None\<rparr>), (''input_1'', \<lparr>schema = \<lparr>features = [(''B'', INT64), (''A'', INT64)], indexes = [(''store'', STRING)], is_unix_timestamp = False\<rparr>, sampling_node = 1, creator = None\<rparr>)] :: error + unit Operator)
     \<noteq> Inl (ValueError Too_many_arguments_provided)
   \<and> fst (combine [\<lparr>schema = \<lparr>features = [(''A'', INT64), (''B'', INT64)], indexes = [(''store'', STRING)], is_unix_timestamp = True\<rparr>, sampling_node = 0, creator = None\<rparr>] 5) = Inr \<lparr>schema = \<lparr>features = [(''A'', INT64), (''B'', INT64)], indexes = [(''store'', STRING)], is_unix_timestamp = True\<rparr>, sampling_node = 0, creator = None\<rparr>"
  using Combine_argument_count [where kwargs = "[(''input_0'', \<lparr>schema = \<lparr>features = [(''A'', INT64), (''B'', INT64)], indexes = [(''store'', STRING)], is_unix_timestamp = True\<rparr>, sampling_node = 0, creator = None\<rparr>)]" and self_id = 7
      and new_sampling = 8 and x = "\<lparr>schema = \<lparr>features = [(''A'', INT64), (''B'', INT64)], indexes = [(''store'', STRING)], is_unix_timestamp = True\<rparr>, sampling_node = 0, creator = None\<rparr>" and fresh = 5, where ?'v = unit]
    Combine_argument_count [where kwargs = "map (\<lambda>idx. (''input_'' @ str_nat idx, \<lparr>schema = \<lparr>features = [(''A'', INT64), (''B'', INT64)], indexes = [(''store'', STRING)], is_unix_timestamp = True\<rparr>, sampling_node = 0, creator = None\<rparr>)) [0..<30]"
      and self_id = 7 and new_sampling = 8, where ?'v = unit]
    Combine_argument_count [where kwargs = "[(''input_0'', \<lparr>schema = \<lparr>features = [(''A'', INT64), (''B'', INT64)], indexes = [(''store'', STRING)], is_unix_timestamp = True\<rparr>, sampling_node = 0, creator = None\<rparr>), (''input_1'', \<lparr>schema = \<lparr>features = [(''B'', INT64), (''A'', INT64)], indexes = [(''store'', STRING)], is_unix_timestamp = False\<rparr>, sampling_node = 1, creator = None\<rparr>)]"
      and self_id = 7 and new_sampling = 8, where ?'v = unit]
  by simp

theorem combine_one_argument_returns:
  "\<not> (\<exists>e. fst (combine [\<lparr>schema = \<lparr>features = [(''A'', INT64), (''B'', INT64)], indexes = [(''store'', STRING)], is_unix_timestamp = True\<rparr>, sampling_node = 0, creator = None\<rparr>] 5) = Inl e)"
  by (simp add: combine_def)

text \<open>
  C4. For every node \<open>x\<close>, \<open>combine\<close> with the single argument \<open>x\<close> returns \<open>x\<close>
  itself and leaves the counter of object identities as it was: no operator is constructed.
\<close>

theorem combine_single_argument:
  "combine [x] fresh = (Inr x, fresh)"
  by (simp add: combine_def)

theorem combine_single_argument_witness:
  "combine [\<lparr>schema = \<lparr>features = [(''A'', INT64), (''B'', INT64)], indexes = [(''store'', STRING)], is_unix_timestamp = True\<rparr>, sampling_node = 0, creator = None\<rparr>] 5 = (Inr \<lparr>schema = \<lparr>features = [(''A'', INT64), (''B'', INT64)], indexes = [(''store'', STRING)], is_unix_timestamp = True\<rparr>, sampling_node = 0, creator = None\<rparr>, 5)"
  using combine_single_argument [of "\<lparr>schema = \<lparr>features = [(''A'', INT64), (''B'', INT64)], indexes = [(''store'', STRING)], is_unix_timestamp = True\<rparr>, sampling_node = 0, creator = None\<rparr>" 5] .

text \<open>
  With any other number of arguments the last line of \<open>combine\<close> calls \<open>Combine(inputs)\<close>,
  which fails on its positional argument before any check of \<open>Combine.__init__\<close> runs.
\<close>

lemma combine_positional_argument:
  "length inputs_tuple \<noteq> 1 \<Longrightarrow> combine inputs_tuple fresh = (Inl TypeError, fresh + 2)"
  by (simp add: combine_def Combine_call_def)




text \<open>
  C6. When the construction of \<open>Combine\<close> succeeds, the unix flag of the output node is
  true if and only if the unix flag of every input node is true: one input whose flag is
  false makes it false.
\<close>

theorem Combine_is_unix_timestamp:
  "(Combine_call self_id new_sampling ([] :: unit list) kwargs :: error + 'v Operator) = Inr op \<Longrightarrow>
     \<exists>out. outputs op = [(''output'', out)]
       \<and> (is_unix_timestamp (schema out) \<longleftrightarrow>
            (\<forall>n \<in> snd ` set kwargs. is_unix_timestamp (schema n)))"
proof -
  assume "(Combine_call self_id new_sampling ([] :: unit list) kwargs :: error + 'v Operator) = Inr op"
  then have "Combine_init self_id new_sampling kwargs = Inr op"
    by (simp add: Combine_call_def)
  from Combine_init_success[OF this] show ?thesis
    unfolding list_all_snd by (auto simp: create_node_new_features_new_sampling_def)
qed

theorem Combine_is_unix_timestamp_witness:
  "(\<exists>op out.
      (Combine_call 7 8 ([] :: unit list) [(''input_0'', \<lparr>schema = \<lparr>features = [(''A'', INT64), (''B'', INT64)], indexes = [(''store'', STRING)], is_unix_timestamp = True\<rparr>, sampling_node = 0, creator = None\<rparr>), (''input_1'', \<lparr>schema = \<lparr>features = [(''B'', INT64), (''A'', INT64)], indexes = [(''store'', STRING)], is_unix_timestamp = False\<rparr>, sampling_node = 1, creator = None\<rparr>)] :: error + unit Operator)
        = Inr op
      \<and> outputs op = [(''output'', out)] \<and> \<not> is_unix_timestamp (schema out))
   \<and> (\<exists>op out.
      (Combine_call 7 8 ([] :: unit list) [(''input_0'', \<lparr>schema = \<lparr>features = [(''A'', INT64), (''B'', INT64)], indexes = [(''store'', STRING)], is_unix_timestamp = True\<rparr>, sampling_node = 0, creator = None\<rparr>), (''input_1'', \<lparr>schema = \<lparr>features = [(''A'', INT64), (''B'', INT64)], indexes = [(''store'', STRING)], is_unix_timestamp = True\<rparr>, sampling_node = 0, creator = None\<rparr>)] :: error + unit Operator)
        = Inr op
      \<and> outputs op = [(''output'', out)] \<and> is_unix_timestamp (schema out))"
  using Combine_is_unix_timestamp [OF Combine_example] Combine_is_unix_timestamp [OF Combine_example_unix]
    Combine_example Combine_example_unix
  by auto

section \<open>Properties of the NumPy Cast\<close>

text \<open>
  The two dtypes without limits are the two that are never checked, so the check never fails
  on a missing key.
\<close>

lemma nocheck: "d \<in> set nocheck_dtypes \<longleftrightarrow> d = BOOLEAN \<or> d = STRING"
  by (auto simp: nocheck_dtypes_def)

lemma dtype_limits_None: "dtype_limits d = None \<longleftrightarrow> d = BOOLEAN \<or> d = STRING"
  by (cases d) simp_all

text \<open>
  The limits of the integer dtypes as floats. In float64 \<open>2^63 - 1\<close> is \<open>2^63\<close>; in
  float32 so is it, and \<open>2^31 - 1\<close> is \<open>2^31\<close>. The least values are powers of two and
  stay as they are.
\<close>

lemma bit_length_values:
  "bit_length 2147483647 = 31" "bit_length 9223372036854775807 = 63"
  "bit_length 9223372036854775808 = 64" "bit_length 2147483648 = 32"
  "bit_length 16777217 = 25" "bit_length 16777219 = 25"
  by (simp_all add: bit_length.simps)

lemma round_to_float_limits:
  "round_to_float 53 (2 ^ 63 - 1) = 2 ^ 63"
  "round_to_float 53 (- (2 ^ 63)) = - (2 ^ 63)"
  "round_to_float 53 (2 ^ 31 - 1) = 2 ^ 31 - 1"
  "round_to_float 53 (- (2 ^ 31)) = - (2 ^ 31)"
  "round_to_float 24 (2 ^ 63 - 1) = 2 ^ 63"
  "round_to_float 24 (- (2 ^ 63)) = - (2 ^ 63)"
  "round_to_float 24 (2 ^ 31 - 1) = 2 ^ 31"
  "round_to_float 24 (- (2 ^ 31)) = - (2 ^ 31)"
  by (simp_all add: round_to_float_def Let_def bit_length_values)

lemma round_to_float_numerals:
  "round_to_float 53 9223372036854775807 = 9223372036854775808"
  "round_to_float 53 (- 9223372036854775808) = - 9223372036854775808"
  "round_to_float 53 2147483647 = 2147483647"
  "round_to_float 53 (- 2147483648) = - 2147483648"
  "round_to_float 24 9223372036854775807 = 9223372036854775808"
  "round_to_float 24 (- 9223372036854775808) = - 9223372036854775808"
  "round_to_float 24 2147483647 = 2147483648"
  "round_to_float 24 (- 2147483648) = - 2147483648"
  using round_to_float_limits by simp_all

lemma round_to_float_ties:
  "round_to_float 24 16777217 = 16777216"
  "round_to_float 24 16777219 = 16777220"
  "round_to_float 24 (- 16777219) = - 16777220"
  by (simp_all add: round_to_float_def Let_def bit_length_values)

lemma outside_iff:
  "lt_limit v lo \<or> gt_limit v hi \<longleftrightarrow>
     v = NegInf \<or> v = PosInf \<or> (\<exists>x. v = Finite x \<and> (x < of_int lo \<or> of_int hi < x))"
  by (cases v) auto

text \<open>
  \<open>_can_overflow\<close> holds for six pairs of dtypes, and the check passes for every other
  pair. For each of the six the check is a comparison with two fixed bounds. An integer array
  is checked against the exact range of the destination. A float array cast to INT64 passes
  with the element \<open>2^63\<close>, and a float32 array cast to INT32 with the element \<open>2^31\<close>:
  each is above the greatest value of the destination.
\<close>

lemma can_overflow_pairs:
  "can_overflow origin dst =
     Inr ((origin, dst) \<in> {(INT64, INT32), (FLOAT32, INT32), (FLOAT32, INT64),
                            (FLOAT64, INT32), (FLOAT64, INT64), (FLOAT64, FLOAT32)})"
  by (cases origin; cases dst) (simp_all add: can_overflow_def nocheck_dtypes_def)

lemma check_overflow_not_checked:
  "(origin, dst) \<notin> {(INT64, INT32), (FLOAT32, INT32), (FLOAT32, INT64),
                       (FLOAT64, INT32), (FLOAT64, INT64), (FLOAT64, FLOAT32)} \<Longrightarrow>
   check_overflow arr origin dst = Inr ()"
  by (simp add: check_overflow_def can_overflow_pairs)

lemma check_overflow_same_dtype:
  "check_overflow arr d d = Inr ()"
  by (rule check_overflow_not_checked) simp

lemma check_overflow_int64_int32:
  "check_overflow (Int64Array xs) INT64 INT32 =
     (if \<exists>x \<in> set xs. x < - (2 ^ 31) \<or> 2 ^ 31 - 1 < x
      then Inl (ValueError (Overflow_casting INT64 INT32)) else Inr ())"
  by (simp add: check_overflow_def can_overflow_def nocheck_dtypes_def int_outside_def
      list_ex_iff)

lemma check_overflow_float64_int32:
  "check_overflow (Float64Array vs) FLOAT64 INT32 =
     (if \<exists>v \<in> set vs. v = NegInf \<or> v = PosInf \<or> (\<exists>x. v = Finite x \<and> (x < - (2 ^ 31) \<or> 2 ^ 31 - 1 < x))
      then Inl (ValueError (Overflow_casting FLOAT64 INT32)) else Inr ())"
  by (simp add: check_overflow_def can_overflow_def nocheck_dtypes_def float_outside_def
      round_to_float_numerals list_ex_iff outside_iff)

lemma check_overflow_float64_int64:
  "check_overflow (Float64Array vs) FLOAT64 INT64 =
     (if \<exists>v \<in> set vs. v = NegInf \<or> v = PosInf \<or> (\<exists>x. v = Finite x \<and> (x < - (2 ^ 63) \<or> 2 ^ 63 < x))
      then Inl (ValueError (Overflow_casting FLOAT64 INT64)) else Inr ())"
  by (simp add: check_overflow_def can_overflow_def nocheck_dtypes_def float_outside_def
      round_to_float_numerals list_ex_iff outside_iff)

lemma check_overflow_float32_int32:
  "check_overflow (Float32Array vs) FLOAT32 INT32 =
     (if \<exists>v \<in> set vs. v = NegInf \<or> v = PosInf \<or> (\<exists>x. v = Finite x \<and> (x < - (2 ^ 31) \<or> 2 ^ 31 < x))
      then Inl (ValueError (Overflow_casting FLOAT32 INT32)) else Inr ())"
  by (simp add: check_overflow_def can_overflow_def nocheck_dtypes_def float_outside_def
      round_to_float_numerals list_ex_iff outside_iff)

lemma check_overflow_float32_int64:
  "check_overflow (Float32Array vs) FLOAT32 INT64 =
     (if \<exists>v \<in> set vs. v = NegInf \<or> v = PosInf \<or> (\<exists>x. v = Finite x \<and> (x < - (2 ^ 63) \<or> 2 ^ 63 < x))
      then Inl (ValueError (Overflow_casting FLOAT32 INT64)) else Inr ())"
  by (simp add: check_overflow_def can_overflow_def nocheck_dtypes_def float_outside_def
      round_to_float_numerals list_ex_iff outside_iff)

lemma check_overflow_float64_float32:
  "check_overflow (Float64Array vs) FLOAT64 FLOAT32 =
     (if \<exists>v \<in> set vs. v = NegInf \<or> v = PosInf \<or> (\<exists>x. v = Finite x \<and> (x < - (2 ^ 128 - 2 ^ 104) \<or> 2 ^ 128 - 2 ^ 104 < x))
      then Inl (ValueError (Overflow_casting FLOAT64 FLOAT32)) else Inr ())"
  by (simp add: check_overflow_def can_overflow_def nocheck_dtypes_def float_outside_def
      round_to_float_numerals list_ex_iff outside_iff)

text \<open>
  The loop over the features runs the check before it converts a feature, and otherwise does
  what it does with checking disabled. The event with the INT64 feature \<open>[0, 2^40]\<close> cast
  to INT32 fails with checking enabled; with checking disabled the call returns the event
  around whatever NumPy's conversion returns.
\<close>

lemma cast_features_checked:
  assumes "target_dtypes (name f) = Some dst"
  shows "cast_features astype target_dtypes True [f] out fresh =
     (case check_overflow (feature_data f) (feature_dtype f) dst of
        Inl e \<Rightarrow> Inl e
      | Inr _ \<Rightarrow> cast_features astype target_dtypes False [f] out fresh)"
proof (cases "feature_dtype f = dst")
  case True
  with assms show ?thesis by (simp add: check_overflow_same_dtype)
next
  case False
  with assms show ?thesis by (simp split: sum.splits)
qed

lemma Cast_int64_to_int32_example:
  "CastNumpyImplementation_call astype [''f'' \<mapsto> INT32] True \<lparr>event_id = 1, event_data = [((), [\<lparr>feature_id = 0, name = ''f'', feature_data = Int64Array [0, 2 ^ 40]\<rparr>])], sampling = 0\<rparr> 2
        = Inl (ValueError (Overflow_casting INT64 INT32))"
  "CastNumpyImplementation_call astype [''f'' \<mapsto> INT32] False \<lparr>event_id = 1, event_data = [((), [\<lparr>feature_id = 0, name = ''f'', feature_data = Int64Array [0, 2 ^ 40]\<rparr>])], sampling = 0\<rparr> 2
        = (case astype (Int64Array [0, 2 ^ 40]) INT32 of
             Inl e \<Rightarrow> Inl e
           | Inr converted \<Rightarrow>
               Inr ([(''event'',
                      \<lparr>event_id = 2,
                       event_data = [((), [\<lparr>feature_id = 3, name = ''f'',
                                              feature_data = converted\<rparr>])],
                       sampling = 0\<rparr>)], 4))"
proof -
  define ev :: "unit NumpyEvent" where "ev = \<lparr>event_id = 1, event_data = [((), [\<lparr>feature_id = 0, name = ''f'', feature_data = Int64Array [0, 2 ^ 40]\<rparr>])], sampling = 0\<rparr>"
  have dt: "dtypes ev = [(''f'', INT64)]"
    by (simp add: ev_def dtypes_def feature_dtype_def)
  have data: "event_data ev = [((), [\<lparr>feature_id = 0, name = ''f'',
                                     feature_data = Int64Array [0, 2 ^ 40]\<rparr>])]"
    and samp: "sampling ev = 0"
    by (simp_all add: ev_def)
  have chk: "check_overflow (Int64Array [0, 2 ^ 40]) INT64 INT32
               = Inl (ValueError (Overflow_casting INT64 INT32))"
    by (simp add: check_overflow_int64_int32)
  have "CastNumpyImplementation_call astype [''f'' \<mapsto> INT32] True ev 2
        = Inl (ValueError (Overflow_casting INT64 INT32))"
    unfolding CastNumpyImplementation_call_def dt data
    using chk by (simp add: feature_dtype_def)
  then show "CastNumpyImplementation_call astype [''f'' \<mapsto> INT32] True \<lparr>event_id = 1, event_data = [((), [\<lparr>feature_id = 0, name = ''f'', feature_data = Int64Array [0, 2 ^ 40]\<rparr>])], sampling = 0\<rparr> 2
        = Inl (ValueError (Overflow_casting INT64 INT32))"
    unfolding ev_def .
  have "CastNumpyImplementation_call astype [''f'' \<mapsto> INT32] False ev 2
        = (case astype (Int64Array [0, 2 ^ 40]) INT32 of
             Inl e \<Rightarrow> Inl e
           | Inr converted \<Rightarrow>
               Inr ([(''event'',
                      \<lparr>event_id = 2,
                       event_data = [((), [\<lparr>feature_id = 3, name = ''f'',
                                              feature_data = converted\<rparr>])],
                       sampling = 0\<rparr>)], 4))"
    unfolding CastNumpyImplementation_call_def dt data samp
    by (simp add: feature_dtype_def eval_nat_numeral split: sum.splits)
  then show "CastNumpyImplementation_call astype [''f'' \<mapsto> INT32] False \<lparr>event_id = 1, event_data = [((), [\<lparr>feature_id = 0, name = ''f'', feature_data = Int64Array [0, 2 ^ 40]\<rparr>])], sampling = 0\<rparr> 2
        = (case astype (Int64Array [0, 2 ^ 40]) INT32 of
             Inl e \<Rightarrow> Inl e
           | Inr converted \<Rightarrow>
               Inr ([(''event'',
                      \<lparr>event_id = 2,
                       event_data = [((), [\<lparr>feature_id = 3, name = ''f'',
                                              feature_data = converted\<rparr>])],
                       sampling = 0\<rparr>)], 4))"
    unfolding ev_def .
qed

text \<open>
  C2. The code at the input where it misses an overflow: an event with one float64 feature
  \<open>[2^63]\<close>, cast to INT64 with overflow checking enabled. The greatest INT64 is
  \<open>2^63 - 1\<close>, below the element; FLOAT64 can overflow INT64 and neither dtype is exempt.
  The check compares the array with the limit in float64, where the limit is \<open>2^63\<close>, and
  finds no element outside: the call raises no overflow error and goes on to NumPy's
  conversion of the array, whose result it returns.
\<close>

theorem Cast_overflow_missed:
  "dtype_limits INT64 = Some \<lparr>lmin = - (2 ^ 63), lmax = 2 ^ 63 - 1, python_int = True\<rparr>
   \<and> (2 ^ 63 - 1 :: real) < 2 ^ 63
   \<and> check_overflow (Float64Array [Finite (2 ^ 63)]) FLOAT64 INT64 = Inr ()
   \<and> CastNumpyImplementation_call astype [''f'' \<mapsto> INT64] True \<lparr>event_id = 1, event_data = [((), [\<lparr>feature_id = 0, name = ''f'', feature_data = Float64Array [Finite (2 ^ 63)]\<rparr>])], sampling = 0\<rparr> 2
        = (case astype (Float64Array [Finite (2 ^ 63)]) INT64 of
             Inl e \<Rightarrow> Inl e
           | Inr converted \<Rightarrow>
               Inr ([(''event'',
                      \<lparr>event_id = 2,
                       event_data = [((), [\<lparr>feature_id = 3, name = ''f'',
                                              feature_data = converted\<rparr>])],
                       sampling = 0\<rparr>)], 4))"
proof -
  define ev :: "unit NumpyEvent" where "ev = \<lparr>event_id = 1, event_data = [((), [\<lparr>feature_id = 0, name = ''f'', feature_data = Float64Array [Finite (2 ^ 63)]\<rparr>])], sampling = 0\<rparr>"
  have dt: "dtypes ev = [(''f'', FLOAT64)]"
    by (simp add: ev_def dtypes_def feature_dtype_def)
  have data: "event_data ev = [((), [\<lparr>feature_id = 0, name = ''f'',
                                     feature_data = Float64Array [Finite (2 ^ 63)]\<rparr>])]"
    and samp: "sampling ev = 0"
    by (simp_all add: ev_def)
  have lim: "dtype_limits INT64 = Some \<lparr>lmin = - (2 ^ 63), lmax = 2 ^ 63 - 1, python_int = True\<rparr>"
    by simp
  have above: "(2 ^ 63 - 1 :: real) < 2 ^ 63" by simp
  have chk: "check_overflow (Float64Array [Finite (2 ^ 63)]) FLOAT64 INT64 = Inr ()"
    by (simp add: check_overflow_float64_int64)
  have call: "CastNumpyImplementation_call astype [''f'' \<mapsto> INT64] True ev 2
        = (case astype (Float64Array [Finite (2 ^ 63)]) INT64 of
             Inl e \<Rightarrow> Inl e
           | Inr converted \<Rightarrow>
               Inr ([(''event'',
                      \<lparr>event_id = 2,
                       event_data = [((), [\<lparr>feature_id = 3, name = ''f'',
                                              feature_data = converted\<rparr>])],
                       sampling = 0\<rparr>)], 4))"
    unfolding CastNumpyImplementation_call_def dt data samp
    using chk by (simp add: feature_dtype_def eval_nat_numeral split: sum.splits)
  show ?thesis
    unfolding ev_def [symmetric] by (intro conjI lim above chk call)
qed

theorem Cast_overflow_missed_witness:
  "check_overflow (Float64Array [Finite (2 ^ 63)]) FLOAT64 INT64 = Inr ()
   \<and> CastNumpyImplementation_call (\<lambda>arr d. Inr (Int64Array [- (2 ^ 63)]))
        [''f'' \<mapsto> INT64] True \<lparr>event_id = 1, event_data = [((), [\<lparr>feature_id = 0, name = ''f'', feature_data = Float64Array [Finite (2 ^ 63)]\<rparr>])], sampling = 0\<rparr> 2
      = Inr ([(''event'',
               \<lparr>event_id = 2,
                event_data = [((), [\<lparr>feature_id = 3, name = ''f'',
                                      feature_data = Int64Array [- (2 ^ 63)]\<rparr>])],
                sampling = 0\<rparr>)], 4)"
  using Cast_overflow_missed [where astype = "\<lambda>arr d. Inr (Int64Array [- (2 ^ 63)])"]
  by simp

text \<open>
  The entries of \<open>dtypes\<close> come from the features of the first index value; the loops
  keep the position of every index value and of every feature.
\<close>

lemma update_fresh_key:
  "k \<notin> fst ` set al \<Longrightarrow> AList.update k v al = al @ [(k, v)]"
  by (induction al) auto

lemma set_update_subset:
  "set (AList.update k v al) \<subseteq> insert (k, v) (set al)"
  by (induction al) auto

lemma dtypes_fold_entries:
  "(n, d) \<in> set (fold (\<lambda>f d. AList.update (name f) (feature_dtype f) d) fs acc) \<Longrightarrow>
   (n, d) \<in> set acc \<or> (\<exists>f \<in> set fs. name f = n \<and> feature_dtype f = d)"
proof (induction fs arbitrary: acc)
  case Nil
  then show ?case by simp
next
  case (Cons f fs)
  from Cons.IH[of "AList.update (name f) (feature_dtype f) acc"] Cons.prems
  have "(n, d) \<in> set (AList.update (name f) (feature_dtype f) acc)
        \<or> (\<exists>f \<in> set fs. name f = n \<and> feature_dtype f = d)"
    by simp
  with set_update_subset[of "name f" "feature_dtype f" acc] show ?case by auto
qed

lemma all_same_dtype_True:
  "\<forall>(n, d) \<in> set xs. target_dtypes n = Some d \<Longrightarrow> all_same_dtype target_dtypes xs = Inr True"
  by (induction xs) auto

lemma cast_features_result:
  "cast_features astype target_dtypes chk fs out fresh = Inr (res, fresh') \<Longrightarrow>
   \<exists>new. res = out @ new \<and> length new = length fs \<and> fresh \<le> fresh'
     \<and> (\<forall>j < length fs.
           (target_dtypes (name (fs ! j)) = Some (feature_dtype (fs ! j)) \<longrightarrow> new ! j = fs ! j)
           \<and> (new ! j = fs ! j \<or> fresh \<le> feature_id (new ! j)))"
proof (induction fs arbitrary: out fresh)
  case Nil
  then show ?case by simp
next
  case (Cons f fs)
  from Cons.prems obtain dst where dst: "target_dtypes (name f) = Some dst"
    by (auto split: option.splits)
  show ?case
  proof (cases "feature_dtype f = dst")
    case True
    with Cons.prems dst
    have "cast_features astype target_dtypes chk fs (out @ [f]) fresh = Inr (res, fresh')"
      by simp
    from Cons.IH[OF this] obtain new where new: "res = (out @ [f]) @ new" "length new = length fs"
      "fresh \<le> fresh'"
      "\<forall>j < length fs.
           (target_dtypes (name (fs ! j)) = Some (feature_dtype (fs ! j)) \<longrightarrow> new ! j = fs ! j)
           \<and> (new ! j = fs ! j \<or> fresh \<le> feature_id (new ! j))"
      by blast
    have "\<forall>j < length (f # fs).
           (target_dtypes (name ((f # fs) ! j)) = Some (feature_dtype ((f # fs) ! j))
              \<longrightarrow> (f # new) ! j = (f # fs) ! j)
           \<and> ((f # new) ! j = (f # fs) ! j \<or> fresh \<le> feature_id ((f # new) ! j))"
      using new(4) by (auto simp: nth_Cons split: nat.splits)
    with new(1-3) show ?thesis
      by (intro exI[of _ "f # new"]) simp
  next
    case False
    with Cons.prems dst obtain converted where
      rec: "cast_features astype target_dtypes chk fs
              (out @ [\<lparr>feature_id = fresh, name = name f, feature_data = converted\<rparr>])
              (Suc fresh) = Inr (res, fresh')"
      by (auto split: sum.splits if_splits)
    let ?g = "\<lparr>feature_id = fresh, name = name f, feature_data = converted\<rparr>"
    from Cons.IH[OF rec] obtain new where new: "res = (out @ [?g]) @ new" "length new = length fs"
      "Suc fresh \<le> fresh'"
      "\<forall>j < length fs.
           (target_dtypes (name (fs ! j)) = Some (feature_dtype (fs ! j)) \<longrightarrow> new ! j = fs ! j)
           \<and> (new ! j = fs ! j \<or> Suc fresh \<le> feature_id (new ! j))"
      by blast
    have "\<forall>j < length (f # fs).
           (target_dtypes (name ((f # fs) ! j)) = Some (feature_dtype ((f # fs) ! j))
              \<longrightarrow> (?g # new) ! j = (f # fs) ! j)
           \<and> ((?g # new) ! j = (f # fs) ! j \<or> fresh \<le> feature_id ((?g # new) ! j))"
    proof (intro allI impI)
      fix j assume j: "j < length (f # fs)"
      show "(target_dtypes (name ((f # fs) ! j)) = Some (feature_dtype ((f # fs) ! j))
              \<longrightarrow> (?g # new) ! j = (f # fs) ! j)
           \<and> ((?g # new) ! j = (f # fs) ! j \<or> fresh \<le> feature_id ((?g # new) ! j))"
      proof (cases j)
        case 0
        with dst False show ?thesis by simp
      next
        case (Suc j')
        with j new(4) have "(target_dtypes (name (fs ! j')) = Some (feature_dtype (fs ! j'))
               \<longrightarrow> new ! j' = fs ! j')
           \<and> (new ! j' = fs ! j' \<or> Suc fresh \<le> feature_id (new ! j'))"
          by simp
        with Suc show ?thesis by auto
      qed
    qed
    with new(1-3) show ?thesis
      by (intro exI[of _ "?g # new"]) simp
  qed
qed

lemma cast_indexes_result:
  "cast_indexes astype target_dtypes chk xs out fresh = Inr (res, fresh') \<Longrightarrow>
   distinct (map fst xs) \<Longrightarrow> fst ` set xs \<inter> fst ` set out = {} \<Longrightarrow>
   \<exists>ys. res = out @ ys \<and> fresh \<le> fresh'
     \<and> list_all2 (\<lambda>(k, fs) (k', fs'). k' = k \<and> length fs' = length fs
            \<and> (\<forall>j < length fs.
                  (target_dtypes (name (fs ! j)) = Some (feature_dtype (fs ! j)) \<longrightarrow> fs' ! j = fs ! j)
                  \<and> (fs' ! j = fs ! j \<or> fresh \<le> feature_id (fs' ! j)))) xs ys"
proof (induction xs arbitrary: out fresh)
  case Nil
  then show ?case by simp
next
  case (Cons x xs)
  obtain k fs where x: "x = (k, fs)" by (cases x)
  from Cons.prems(1) x obtain nf fr1 where
    feats: "cast_features astype target_dtypes chk fs [] fresh = Inr (nf, fr1)"
    by (auto split: sum.splits)
  with Cons.prems(1) x
  have rec: "cast_indexes astype target_dtypes chk xs (AList.update k nf out) fr1 = Inr (res, fresh')"
    by simp
  from Cons.prems(3) x have "k \<notin> fst ` set out" by auto
  then have upd: "AList.update k nf out = out @ [(k, nf)]" by (rule update_fresh_key)
  from Cons.prems(2,3) x have disj: "fst ` set xs \<inter> fst ` set (out @ [(k, nf)]) = {}"
    by auto
  from Cons.prems(2) have dist: "distinct (map fst xs)" by simp
  from Cons.IH[OF rec[unfolded upd] dist disj]
  obtain ys where ys: "res = (out @ [(k, nf)]) @ ys" "fr1 \<le> fresh'"
    "list_all2 (\<lambda>(k, fs) (k', fs'). k' = k \<and> length fs' = length fs
            \<and> (\<forall>j < length fs.
                  (target_dtypes (name (fs ! j)) = Some (feature_dtype (fs ! j)) \<longrightarrow> fs' ! j = fs ! j)
                  \<and> (fs' ! j = fs ! j \<or> fr1 \<le> feature_id (fs' ! j)))) xs ys"
    by blast
  from cast_features_result[OF feats]
  have head: "length nf = length fs" "fresh \<le> fr1"
      "\<forall>j < length fs.
           (target_dtypes (name (fs ! j)) = Some (feature_dtype (fs ! j)) \<longrightarrow> nf ! j = fs ! j)
           \<and> (nf ! j = fs ! j \<or> fresh \<le> feature_id (nf ! j))"
    by auto
  from ys(3) head(2) have tail: "list_all2 (\<lambda>(k, fs) (k', fs'). k' = k \<and> length fs' = length fs
            \<and> (\<forall>j < length fs.
                  (target_dtypes (name (fs ! j)) = Some (feature_dtype (fs ! j)) \<longrightarrow> fs' ! j = fs ! j)
                  \<and> (fs' ! j = fs ! j \<or> fresh \<le> feature_id (fs' ! j)))) xs ys"
    by (elim list_all2_mono) (auto intro: le_trans)
  from head x tail have "list_all2 (\<lambda>(k, fs) (k', fs'). k' = k \<and> length fs' = length fs
            \<and> (\<forall>j < length fs.
                  (target_dtypes (name (fs ! j)) = Some (feature_dtype (fs ! j)) \<longrightarrow> fs' ! j = fs ! j)
                  \<and> (fs' ! j = fs ! j \<or> fresh \<le> feature_id (fs' ! j)))) (x # xs) ((k, nf) # ys)"
    by simp
  with ys(1,2) head(2) show ?case
    by (intro exI[of _ "(k, nf) # ys"]) simp
qed

text \<open>
  C9. If every feature of the event has its own dtype as target, the call returns the input
  event itself, and no object is created. Whenever the call returns, the output has the index
  values of the input in the same order, and at every position a feature whose target is its
  own dtype is the same object in the output as in the input; an output feature that is not
  the input object is a new object, with an identity above \<open>fresh\<close>. The keys of
  \<open>event.data\<close> are distinct, as those of a dict are.
\<close>

theorem Cast_reuse:
  "((\<forall>(k, fs) \<in> set (event_data event). \<forall>f \<in> set fs.
        target_dtypes (name f) = Some (feature_dtype f)) \<longrightarrow>
      CastNumpyImplementation_call astype target_dtypes chk event fresh
        = Inr ([(''event'', event)], fresh))
   \<and> (CastNumpyImplementation_call astype target_dtypes chk event fresh
          = Inr ([(''event'', out)], fresh')
        \<and> distinct (map fst (event_data event)) \<longrightarrow>
        length (event_data out) = length (event_data event)
        \<and> (\<forall>i < length (event_data event).
              fst (event_data out ! i) = fst (event_data event ! i)
              \<and> length (snd (event_data out ! i)) = length (snd (event_data event ! i))
              \<and> (\<forall>j < length (snd (event_data event ! i)).
                    (target_dtypes (name (snd (event_data event ! i) ! j))
                       = Some (feature_dtype (snd (event_data event ! i) ! j)) \<longrightarrow>
                     snd (event_data out ! i) ! j = snd (event_data event ! i) ! j)
                    \<and> (snd (event_data out ! i) ! j = snd (event_data event ! i) ! j
                        \<or> fresh < feature_id (snd (event_data out ! i) ! j)))))"
proof (rule conjI; rule impI)
  assume same: "\<forall>(k, fs) \<in> set (event_data event). \<forall>f \<in> set fs.
        target_dtypes (name f) = Some (feature_dtype f)"
  have "\<forall>(n, d) \<in> set (dtypes event). target_dtypes n = Some d"
  proof (cases "event_data event")
    case Nil
    then show ?thesis by (simp add: dtypes_def)
  next
    case (Cons x xs)
    obtain k fs where x: "x = (k, fs)" by (cases x)
    from same Cons x have fs: "\<forall>f \<in> set fs. target_dtypes (name f) = Some (feature_dtype f)"
      by auto
    from Cons x have "dtypes event = fold (\<lambda>f d. AList.update (name f) (feature_dtype f) d) fs []"
      by (simp add: dtypes_def)
    with dtypes_fold_entries[of _ _ fs "[]"] fs show ?thesis by auto
  qed
  then have "all_same_dtype target_dtypes (dtypes event) = Inr True"
    by (rule all_same_dtype_True)
  then show "CastNumpyImplementation_call astype target_dtypes chk event fresh
        = Inr ([(''event'', event)], fresh)"
    by (simp add: CastNumpyImplementation_call_def)
next
  assume a: "CastNumpyImplementation_call astype target_dtypes chk event fresh
          = Inr ([(''event'', out)], fresh')
        \<and> distinct (map fst (event_data event))"
  then obtain same where same: "all_same_dtype target_dtypes (dtypes event) = Inr same"
    by (auto simp: CastNumpyImplementation_call_def split: sum.splits)
  show "length (event_data out) = length (event_data event)
        \<and> (\<forall>i < length (event_data event).
              fst (event_data out ! i) = fst (event_data event ! i)
              \<and> length (snd (event_data out ! i)) = length (snd (event_data event ! i))
              \<and> (\<forall>j < length (snd (event_data event ! i)).
                    (target_dtypes (name (snd (event_data event ! i) ! j))
                       = Some (feature_dtype (snd (event_data event ! i) ! j)) \<longrightarrow>
                     snd (event_data out ! i) ! j = snd (event_data event ! i) ! j)
                    \<and> (snd (event_data out ! i) ! j = snd (event_data event ! i) ! j
                        \<or> fresh < feature_id (snd (event_data out ! i) ! j))))"
  proof (cases same)
    case True
    with a same have "out = event"
      by (simp add: CastNumpyImplementation_call_def)
    then show ?thesis by simp
  next
    case False
    with a same obtain out_data where
      loop: "cast_indexes astype target_dtypes chk (event_data event) [] (Suc fresh)
               = Inr (out_data, fresh')"
      and out: "event_data out = out_data"
      by (auto simp: CastNumpyImplementation_call_def split: sum.splits)
    from a have dist: "distinct (map fst (event_data event))" by simp
    from cast_indexes_result[OF loop dist] out
    have rel: "list_all2
        (\<lambda>(k, fs) (k', fs'). k' = k \<and> length fs' = length fs
            \<and> (\<forall>j < length fs.
                  (target_dtypes (name (fs ! j)) = Some (feature_dtype (fs ! j)) \<longrightarrow> fs' ! j = fs ! j)
                  \<and> (fs' ! j = fs ! j \<or> Suc fresh \<le> feature_id (fs' ! j))))
        (event_data event) (event_data out)"
      by auto
    then have len: "length (event_data out) = length (event_data event)"
      by (simp add: list_all2_lengthD)
    have "fst (event_data out ! i) = fst (event_data event ! i)
              \<and> length (snd (event_data out ! i)) = length (snd (event_data event ! i))
              \<and> (\<forall>j < length (snd (event_data event ! i)).
                    (target_dtypes (name (snd (event_data event ! i) ! j))
                       = Some (feature_dtype (snd (event_data event ! i) ! j)) \<longrightarrow>
                     snd (event_data out ! i) ! j = snd (event_data event ! i) ! j)
                    \<and> (snd (event_data out ! i) ! j = snd (event_data event ! i) ! j
                        \<or> fresh < feature_id (snd (event_data out ! i) ! j)))"
      if "i < length (event_data event)" for i
      using list_all2_nthD[OF rel that]
      by (cases "event_data event ! i"; cases "event_data out ! i") (auto simp: less_eq_Suc_le)
    with len show ?thesis by blast
  qed
qed

theorem Cast_reuse_witness:
  "CastNumpyImplementation_call (\<lambda>arr d. Inr (Int64Array [3, 4]))
       [''a'' \<mapsto> INT64, ''b'' \<mapsto> INT32] True \<lparr>event_id = 2, event_data = [(''x'', [\<lparr>feature_id = 0, name = ''a'', feature_data = Int64Array [1, 2]\<rparr>, \<lparr>feature_id = 1, name = ''b'', feature_data = Int32Array [3, 4]\<rparr>])], sampling = 0\<rparr> 10
     = Inr ([(''event'', \<lparr>event_id = 2, event_data = [(''x'', [\<lparr>feature_id = 0, name = ''a'', feature_data = Int64Array [1, 2]\<rparr>, \<lparr>feature_id = 1, name = ''b'', feature_data = Int32Array [3, 4]\<rparr>])], sampling = 0\<rparr>)], 10)
   \<and> CastNumpyImplementation_call (\<lambda>arr d. Inr (Int64Array [3, 4]))
       [''a'' \<mapsto> INT64, ''b'' \<mapsto> INT64] True \<lparr>event_id = 2, event_data = [(''x'', [\<lparr>feature_id = 0, name = ''a'', feature_data = Int64Array [1, 2]\<rparr>, \<lparr>feature_id = 1, name = ''b'', feature_data = Int32Array [3, 4]\<rparr>])], sampling = 0\<rparr> 10
     = Inr ([(''event'', \<lparr>event_id = 10, event_data = [(''x'', [\<lparr>feature_id = 0, name = ''a'', feature_data = Int64Array [1, 2]\<rparr>, \<lparr>feature_id = 11, name = ''b'', feature_data = Int64Array [3, 4]\<rparr>])], sampling = 0\<rparr>)], 12)
   \<and> snd (event_data \<lparr>event_id = 10, event_data = [(''x'', [\<lparr>feature_id = 0, name = ''a'', feature_data = Int64Array [1, 2]\<rparr>, \<lparr>feature_id = 11, name = ''b'', feature_data = Int64Array [3, 4]\<rparr>])], sampling = 0\<rparr> ! 0) ! 0 = snd (event_data \<lparr>event_id = 2, event_data = [(''x'', [\<lparr>feature_id = 0, name = ''a'', feature_data = Int64Array [1, 2]\<rparr>, \<lparr>feature_id = 1, name = ''b'', feature_data = Int32Array [3, 4]\<rparr>])], sampling = 0\<rparr> ! 0) ! 0"
proof -
  define ev :: "string NumpyEvent" where "ev = \<lparr>event_id = 2, event_data = [(''x'', [\<lparr>feature_id = 0, name = ''a'', feature_data = Int64Array [1, 2]\<rparr>, \<lparr>feature_id = 1, name = ''b'', feature_data = Int32Array [3, 4]\<rparr>])], sampling = 0\<rparr>"
  define out :: "string NumpyEvent" where "out = \<lparr>event_id = 10, event_data = [(''x'', [\<lparr>feature_id = 0, name = ''a'', feature_data = Int64Array [1, 2]\<rparr>, \<lparr>feature_id = 11, name = ''b'', feature_data = Int64Array [3, 4]\<rparr>])], sampling = 0\<rparr>"
  define astype :: "ndarray \<Rightarrow> DType \<Rightarrow> error + ndarray"
    where "astype = (\<lambda>arr d. Inr (Int64Array [3, 4]))"
  have data: "event_data ev = [(''x'', [\<lparr>feature_id = 0, name = ''a'', feature_data = Int64Array [1, 2]\<rparr>, \<lparr>feature_id = 1, name = ''b'', feature_data = Int32Array [3, 4]\<rparr>])]" and samp: "sampling ev = 0"
    by (simp_all add: ev_def)
  have same: "\<forall>(k, fs) \<in> set (event_data ev). \<forall>f \<in> set fs.
        [''a'' \<mapsto> INT64, ''b'' \<mapsto> INT32] (name f) = Some (feature_dtype f)"
    by (simp add: data feature_dtype_def)
  have first: "CastNumpyImplementation_call astype [''a'' \<mapsto> INT64, ''b'' \<mapsto> INT32] True ev 10
     = Inr ([(''event'', ev)], 10)"
    using Cast_reuse [where event = ev and target_dtypes = "[''a'' \<mapsto> INT64, ''b'' \<mapsto> INT32]"
        and astype = astype and chk = True and fresh = 10] same
    by blast
  have dt: "dtypes ev = [(''a'', INT64), (''b'', INT32)]"
    by (simp add: dtypes_def data feature_dtype_def)
  have call: "CastNumpyImplementation_call astype [''a'' \<mapsto> INT64, ''b'' \<mapsto> INT64] True ev 10
          = Inr ([(''event'', out)], 12)"
    unfolding CastNumpyImplementation_call_def dt data samp out_def
    by (simp add: feature_dtype_def astype_def check_overflow_def can_overflow_def
        nocheck_dtypes_def eval_nat_numeral)
  have dist: "distinct (map fst (event_data ev))" by (simp add: data)
  have "[''a'' \<mapsto> INT64, ''b'' \<mapsto> INT64] (name (snd (event_data ev ! 0) ! 0))
          = Some (feature_dtype (snd (event_data ev ! 0) ! 0))"
    by (simp add: data feature_dtype_def)
  with Cast_reuse [where event = ev and target_dtypes = "[''a'' \<mapsto> INT64, ''b'' \<mapsto> INT64]"
        and astype = astype and chk = True and fresh = 10 and out = out and fresh' = 12]
    call dist
  have kept: "snd (event_data out ! 0) ! 0 = snd (event_data ev ! 0) ! 0"
    by (simp add: data)
  from first call kept show ?thesis
    unfolding ev_def out_def astype_def by (intro conjI)
qed

section \<open>Properties of the NumPy Where\<close>

lemma where_fold_lookup:
  "map_of (data (fold (\<lambda>(index_key, index_data) output_evset.
                          set_index_value index_key v output_evset) xs acc)) k
   = (if k \<in> fst ` set xs then Some v else map_of (data acc) k)"
proof (induction xs arbitrary: acc)
  case Nil
  then show ?case by simp
next
  case (Cons x xs)
  obtain index_key index_data where x: "x = (index_key, index_data)" by (cases x)
  show ?case
    unfolding x using Cons.IH[of "set_index_value index_key v acc"]
    by (simp add: set_index_value_def update_conv')
qed

lemma where_fold_schema:
  "evset_schema (fold (\<lambda>(index_key, index_data) output_evset.
                          set_index_value index_key v output_evset) xs acc)
   = evset_schema acc"
  by (induction xs arbitrary: acc) (auto simp: set_index_value_def)

text \<open>
  C1. The NumPy implementation of \<open>Where\<close> computes no selection. For every operator with
  an output named "output" and every input, the output has the schema of that output node and
  holds, under each index key of the input and under no other key, the same value: no
  features and the timestamps \<open>[1.0]\<close>. Neither the timestamps and values of the input nor
  the attributes \<open>on_true\<close> and \<open>on_false\<close> of the operator have any effect.
\<close>

theorem Where_numpy_placeholder:
  "map_of (outputs operator) ''output'' = Some nd \<Longrightarrow>
   \<exists>out. WhereNumpyImplementation_call operator input = Inr [(''output'', out)]
     \<and> evset_schema out = schema nd
     \<and> (\<forall>k. map_of (data out) k =
              (if k \<in> fst ` set (data input)
               then Some \<lparr>index_features = [], timestamps = [1]\<rparr> else None))"
  by (simp add: WhereNumpyImplementation_call_def output_schema_def where_fold_lookup
      where_fold_schema)

theorem Where_numpy_placeholder_witness:
  "WhereNumpyImplementation_call (\<lparr>inputs = [], outputs = [(''output'', \<lparr>schema = \<lparr>features = [(''cond'', INT64)], indexes = [], is_unix_timestamp = False\<rparr>, sampling_node = 0, creator = Some 5\<rparr>)], attributes = [(''on_true'', 1), (''on_false'', 2)], on_attributes = [(''on_true'', 1), (''on_false'', 2)]\<rparr> :: int Operator) \<lparr>data = [(''a'', \<lparr>index_features = [BoolArray [True, False]], timestamps = [3, 4]\<rparr>), (''b'', \<lparr>index_features = [BoolArray []], timestamps = []\<rparr>)], evset_schema = \<lparr>features = [(''cond'', BOOLEAN)], indexes = [], is_unix_timestamp = False\<rparr>\<rparr>
     = Inr [(''output'', \<lparr>data = [(''a'', \<lparr>index_features = [], timestamps = [1]\<rparr>), (''b'', \<lparr>index_features = [], timestamps = [1]\<rparr>)], evset_schema = \<lparr>features = [(''cond'', INT64)], indexes = [], is_unix_timestamp = False\<rparr>\<rparr>)]
   \<and> WhereNumpyImplementation_call (\<lparr>inputs = [], outputs = [(''output'', \<lparr>schema = \<lparr>features = [(''cond'', INT64)], indexes = [], is_unix_timestamp = False\<rparr>, sampling_node = 0, creator = Some 5\<rparr>)], attributes = [(''on_true'', 1), (''on_false'', 2)], on_attributes = [(''on_true'', 1), (''on_false'', 2)]\<rparr> :: int Operator) \<lparr>data = [(''a'', \<lparr>index_features = [BoolArray [False]], timestamps = [7]\<rparr>), (''b'', \<lparr>index_features = [BoolArray [True]], timestamps = [9]\<rparr>)], evset_schema = \<lparr>features = [(''cond'', BOOLEAN)], indexes = [], is_unix_timestamp = False\<rparr>\<rparr>
     = Inr [(''output'', \<lparr>data = [(''a'', \<lparr>index_features = [], timestamps = [1]\<rparr>), (''b'', \<lparr>index_features = [], timestamps = [1]\<rparr>)], evset_schema = \<lparr>features = [(''cond'', INT64)], indexes = [], is_unix_timestamp = False\<rparr>\<rparr>)]"
  using Where_numpy_placeholder [where operator = "\<lparr>inputs = [], outputs = [(''output'', \<lparr>schema = \<lparr>features = [(''cond'', INT64)], indexes = [], is_unix_timestamp = False\<rparr>, sampling_node = 0, creator = Some 5\<rparr>)], attributes = [(''on_true'', 1), (''on_false'', 2)], on_attributes = [(''on_true'', 1), (''on_false'', 2)]\<rparr> :: int Operator" and nd = "\<lparr>schema = \<lparr>features = [(''cond'', INT64)], indexes = [], is_unix_timestamp = False\<rparr>, sampling_node = 0, creator = Some 5\<rparr>"
      and input = "\<lparr>data = [(''a'', \<lparr>index_features = [BoolArray [True, False]], timestamps = [3, 4]\<rparr>), (''b'', \<lparr>index_features = [BoolArray []], timestamps = []\<rparr>)], evset_schema = \<lparr>features = [(''cond'', BOOLEAN)], indexes = [], is_unix_timestamp = False\<rparr>\<rparr>"]
  by (simp add: WhereNumpyImplementation_call_def output_schema_def set_index_value_def)

end
